theory Spec2Isabelle
  imports Main
begin

section \<open>ChessGrid: the game-session server (server.js)\<close>

text \<open>
  A shallow embedding of the session logic of the ChessGrid server: the session record,
  the in-memory \<^verbatim>\<open>games\<close> map, its JSON snapshot, and the request handlers that change
  sessions. The chess rules live in the external package \<^verbatim>\<open>chess.js\<close>; the embedding
  takes the operations the server calls on a \<^verbatim>\<open>Chess\<close> object as a parameter
  (\<open>chess_api\<close> below). HTML and SVG rendering are presentational and are left out,
  and so are the routes that only read (\<^verbatim>\<open>GET /games\<close>, the PGN and the move list of a
  square) apart from \<^verbatim>\<open>GET /game/:gameId\<close>.

  Conventions.
  \<^item> Strings are \<open>string\<close>; a value the source tests with \<^verbatim>\<open>!x\<close> or \<^verbatim>\<open>x || d\<close> is an
    \<open>option\<close> where \<open>None\<close> stands for \<^verbatim>\<open>undefined\<close>/\<^verbatim>\<open>null\<close>, and the empty string is
    falsy as in JavaScript. Values of request bodies and of the snapshot file have the
    JSON type the server itself writes or documents (a string where a string is meant).
  \<^item> The side to move (\<^verbatim>\<open>'w'\<close>, \<^verbatim>\<open>'b'\<close>) and the status (\<^verbatim>\<open>'waiting'\<close>, \<^verbatim>\<open>'active'\<close>,
    \<^verbatim>\<open>'finished'\<close>) are datatypes; the seat names \<^verbatim>\<open>'white'\<close> and \<^verbatim>\<open>'black'\<close> stay strings,
    as the handlers compare and return them.
  \<^item> \<^verbatim>\<open>Date.now()\<close> is a parameter \<open>now\<close> of each operation: all clock reads of one
    request see the same value.
  \<^item> \<^verbatim>\<open>uuidv4()\<close> is a parameter of the operation that calls it.
  \<^item> A handler takes the server state and returns the response and the new state.
\<close>

subsection \<open>The rules oracle (chess.js)\<close>

datatype color = W | B

text \<open>
  \<^verbatim>\<open>chess.move({from, to, promotion})\<close> either returns a move object (only its \<^verbatim>\<open>san\<close>
  is used) and leaves the \<^verbatim>\<open>Chess\<close> object at the new position, or returns \<^verbatim>\<open>null\<close>
  (releases before 1.0), or throws an \<^verbatim>\<open>Error\<close> with a message (1.0 and later). In the
  last two cases the \<^verbatim>\<open>Chess\<close> object is left as it was: this is the contract of the
  package, and the type below has no new position for them.
\<close>

datatype 'p move_outcome = Moved string 'p | NoMove | Threw string

record 'p chess_api =
  Chess_new :: 'p
  move :: "'p \<Rightarrow> string \<Rightarrow> string \<Rightarrow> string \<Rightarrow> 'p move_outcome"
  turn :: "'p \<Rightarrow> color"
  isCheck :: "'p \<Rightarrow> bool"
  isCheckmate :: "'p \<Rightarrow> bool"
  isDraw :: "'p \<Rightarrow> bool"
  fen :: "'p \<Rightarrow> string"
  load :: "string \<Rightarrow> 'p option"
  get :: "'p \<Rightarrow> string \<Rightarrow> color option"
  history :: "'p \<Rightarrow> (color \<times> string option) list"

text \<open>
  \<open>load orc s\<close> is \<^verbatim>\<open>chess.load(s)\<close> on a new \<^verbatim>\<open>Chess\<close> object: \<open>None\<close> when the
  package rejects the text (it throws, the object stays at the initial position).
  \<open>get orc p sq\<close> is the colour of the piece \<^verbatim>\<open>chess.get(sq)\<close> returns, if any.
  \<open>history orc p\<close> lists, for each move played on the object, the mover and the piece
  type captured (\<^verbatim>\<open>chess.history({verbose: true})\<close>).
\<close>

subsection \<open>Players and sessions\<close>

datatype player_source = WEB | FRAME

record player =
  player_id :: string
  name :: string
  token :: "string option"
  source :: player_source
  joinedAt :: nat

datatype status = Waiting | Active | Finished

record 'p game =
  chess :: 'p
  whitePlayer :: "player option"
  blackPlayer :: "player option"
  currentPlayer :: color
  selectedSquare :: "string option"
  validMoves :: "string list"
  lastMove :: "(string \<times> string) option"
  status :: status
  moveHistory :: "string list"
  createdAt :: nat
  updatedAt :: nat

definition createPlayer :: "string \<Rightarrow> string \<Rightarrow> string option \<Rightarrow> player_source \<Rightarrow> nat \<Rightarrow> player" where
  "createPlayer i n tok src now =
     \<lparr> player_id = i,
       name = (if n = [] then ''Player'' else n),
       token = tok,
       source = src,
       joinedAt = now \<rparr>"

text \<open>
  \<^verbatim>\<open>String.prototype.trim\<close> on the code units below 256: tab, LF, VT, FF, CR, space and
  the no-break space are white space.
\<close>

definition is_space :: "char \<Rightarrow> bool" where
  "is_space c = (of_char c \<in> {9, 10, 11, 12, 13, 32, 160 :: nat})"

definition trim :: "string \<Rightarrow> string" where
  "trim s = rev (dropWhile is_space (rev (dropWhile is_space s)))"

definition formatPlayerName :: "string option \<Rightarrow> string \<Rightarrow> string" where
  "formatPlayerName n fallback =
     (case n of
        None \<Rightarrow> fallback
      | Some s \<Rightarrow>
          if s = [] then fallback
          else if trim s = [] then fallback
          else take 40 (trim s))"

definition resetGameState :: "'p chess_api \<Rightarrow> 'p game \<Rightarrow> 'p game" where
  "resetGameState orc g =
     g\<lparr> chess := Chess_new orc,
        currentPlayer := W,
        selectedSquare := None,
        validMoves := [],
        lastMove := None,
        status := Waiting,
        moveHistory := [] \<rparr>"

definition createNewGame :: "'p chess_api \<Rightarrow> nat \<Rightarrow> 'p game" where
  "createNewGame orc now =
     \<lparr> chess = Chess_new orc,
       whitePlayer = None,
       blackPlayer = None,
       currentPlayer = W,
       selectedSquare = None,
       validMoves = [],
       lastMove = None,
       status = Waiting,
       moveHistory = [],
       createdAt = now,
       updatedAt = now \<rparr>"

subsection \<open>The session map\<close>

type_synonym 'p store = "string \<rightharpoonup> 'p game"

text \<open>
  \<^verbatim>\<open>getOrCreateGame(gameId)\<close> returns the record stored under the id, after storing a new
  one when the id is absent. The model returns the map and the record.
\<close>

definition getOrCreateGame :: "'p chess_api \<Rightarrow> nat \<Rightarrow> 'p store \<Rightarrow> string \<Rightarrow> 'p store \<times> 'p game" where
  "getOrCreateGame orc now games gameId =
     (case games gameId of
        None \<Rightarrow> (games(gameId \<mapsto> createNewGame orc now), createNewGame orc now)
      | Some g \<Rightarrow> (games, g))"

text \<open>
  \<^verbatim>\<open>assignPlayer(game, color, player)\<close>: any colour other than \<^verbatim>\<open>'white'\<close> is the black
  seat. A session that is not finished becomes active when both seats are taken and
  waiting otherwise.
\<close>

definition assignPlayer :: "'p game \<Rightarrow> string \<Rightarrow> player \<Rightarrow> nat \<Rightarrow> 'p game" where
  "assignPlayer g col pl now =
     (let g1 = (if col = ''white'' then g\<lparr>whitePlayer := Some pl\<rparr>
                else g\<lparr>blackPlayer := Some pl\<rparr>);
          g2 = (if status g1 \<noteq> Finished then
                  (if whitePlayer g1 \<noteq> None \<and> blackPlayer g1 \<noteq> None
                   then g1\<lparr>status := Active\<rparr>
                   else g1\<lparr>status := Waiting\<rparr>)
                else g1)
      in g2\<lparr>updatedAt := now\<rparr>)"

subsection \<open>The snapshot file (data/games.json)\<close>

text \<open>
  One entry of the file, as \<^verbatim>\<open>serializeGame\<close> writes it and \<^verbatim>\<open>loadGamesFromDisk\<close>
  reads it. Every field is optional on the reading side (\<^verbatim>\<open>data.x || default\<close>);
  \<open>None\<close> is a field that is missing or \<^verbatim>\<open>null\<close>. For \<^verbatim>\<open>moveHistory\<close>, \<open>None\<close> is any
  value that is not an array.
\<close>

record saved_game =
  sv_whitePlayer :: "player option"
  sv_blackPlayer :: "player option"
  sv_currentPlayer :: "color option"
  sv_lastMove :: "(string \<times> string) option"
  sv_status :: "status option"
  sv_moveHistory :: "string list option"
  sv_createdAt :: "nat option"
  sv_updatedAt :: "nat option"
  sv_fen :: "string option"

type_synonym snapshot = "string \<rightharpoonup> saved_game"

definition serializeGame :: "'p chess_api \<Rightarrow> 'p game \<Rightarrow> saved_game" where
  "serializeGame orc g =
     \<lparr> sv_whitePlayer = whitePlayer g,
       sv_blackPlayer = blackPlayer g,
       sv_currentPlayer = Some (currentPlayer g),
       sv_lastMove = lastMove g,
       sv_status = Some (status g),
       sv_moveHistory = Some (moveHistory g),
       sv_createdAt = Some (createdAt g),
       sv_updatedAt = Some (updatedAt g),
       sv_fen = Some (fen orc (chess g)) \<rparr>"

text \<open>
  \<^verbatim>\<open>persistGamesToDisk\<close> builds \<^verbatim>\<open>payload = {}\<close>, assigns
  \<^verbatim>\<open>payload[gameId] = serializeGame(game)\<close> for every entry of the map and writes
  \<^verbatim>\<open>JSON.stringify(payload)\<close>. \<^verbatim>\<open>payload\<close> is an ordinary object, so the assignment with
  the key \<^verbatim>\<open>__proto__\<close> goes to the accessor inherited from \<^verbatim>\<open>Object.prototype\<close>: it
  replaces the prototype of \<^verbatim>\<open>payload\<close> and creates no own property, and
  \<^verbatim>\<open>JSON.stringify\<close> writes own properties only. Every other key is written. The
  result is the content of the file; a failing write (caught and logged by the source)
  is not modelled.
\<close>

definition persistGamesToDisk :: "'p chess_api \<Rightarrow> 'p store \<Rightarrow> snapshot" where
  "persistGamesToDisk orc games =
     (\<lambda>gameId. if gameId = ''__proto__'' then None
                else map_option (serializeGame orc) (games gameId))"

text \<open>
  The body of the loop of \<^verbatim>\<open>loadGamesFromDisk\<close> for one entry. \<^verbatim>\<open>data.fen\<close> is loaded
  when it is a non-empty string; a text the package rejects leaves the new \<^verbatim>\<open>Chess\<close>
  object at the initial position. The other fields are taken from the entry as they are.
\<close>

definition loadGame :: "'p chess_api \<Rightarrow> nat \<Rightarrow> saved_game \<Rightarrow> 'p game" where
  "loadGame orc now d =
     \<lparr> chess = (case sv_fen d of
                  None \<Rightarrow> Chess_new orc
                | Some f \<Rightarrow>
                    if f = [] then Chess_new orc
                    else (case load orc f of None \<Rightarrow> Chess_new orc | Some p \<Rightarrow> p)),
       whitePlayer = sv_whitePlayer d,
       blackPlayer = sv_blackPlayer d,
       currentPlayer = (case sv_currentPlayer d of None \<Rightarrow> W | Some c \<Rightarrow> c),
       selectedSquare = None,
       validMoves = [],
       lastMove = sv_lastMove d,
       status = (case sv_status d of None \<Rightarrow> Waiting | Some s \<Rightarrow> s),
       moveHistory = (case sv_moveHistory d of None \<Rightarrow> [] | Some h \<Rightarrow> h),
       createdAt = (case sv_createdAt d of None \<Rightarrow> now | Some t \<Rightarrow> if t = 0 then now else t),
       updatedAt = (case sv_updatedAt d of None \<Rightarrow> now | Some t \<Rightarrow> if t = 0 then now else t) \<rparr>"

text \<open>
  \<^verbatim>\<open>loadGamesFromDisk\<close>: \<open>None\<close> is a file that is absent, blank or not JSON (nothing
  is loaded); otherwise every entry of the file is stored under its key.
\<close>

definition loadGamesFromDisk :: "'p chess_api \<Rightarrow> nat \<Rightarrow> snapshot option \<Rightarrow> 'p store \<Rightarrow> 'p store" where
  "loadGamesFromDisk orc now file games =
     (case file of
        None \<Rightarrow> games
      | Some parsed \<Rightarrow>
          (\<lambda>gameId. case parsed gameId of
                       None \<Rightarrow> games gameId
                     | Some d \<Rightarrow> Some (loadGame orc now d)))"

subsection \<open>The server state\<close>

record 'p server =
  games :: "'p store"
  disk :: "snapshot option"

definition persist :: "'p chess_api \<Rightarrow> 'p server \<Rightarrow> 'p server" where
  "persist orc srv = srv\<lparr>disk := Some (persistGamesToDisk orc (games srv))\<rparr>"

text \<open>Process start: an empty map, then \<^verbatim>\<open>loadGamesFromDisk()\<close>.\<close>

definition start_server :: "'p chess_api \<Rightarrow> nat \<Rightarrow> snapshot option \<Rightarrow> 'p server" where
  "start_server orc now file =
     \<lparr> games = loadGamesFromDisk orc now file Map.empty, disk = file \<rparr>"

datatype error =
    MissingFields
  | GameNotFound
  | MissingPlayerToken
  | InvalidPlayerToken
  | NotYourTurn
  | InvalidMove
  | MoveError string
  | InvalidColor
  | GameFull
  | WhiteTaken
  | BlackTaken

fun http_status :: "error \<Rightarrow> nat" where
  "http_status MissingFields = 400"
| "http_status GameNotFound = 404"
| "http_status MissingPlayerToken = 403"
| "http_status InvalidPlayerToken = 403"
| "http_status NotYourTurn = 423"
| "http_status InvalidMove = 400"
| "http_status (MoveError msg) = 400"
| "http_status InvalidColor = 400"
| "http_status GameFull = 409"
| "http_status WhiteTaken = 409"
| "http_status BlackTaken = 409"

fun error_message :: "error \<Rightarrow> string" where
  "error_message MissingFields = ''Missing gameId, from or to''"
| "error_message GameNotFound = ''Game not found''"
| "error_message MissingPlayerToken = ''Missing player token''"
| "error_message InvalidPlayerToken = ''Invalid player token''"
| "error_message NotYourTurn = ''Not your turn''"
| "error_message InvalidMove = ''Invalid move''"
| "error_message (MoveError msg) = msg"
| "error_message InvalidColor = ''Invalid color choice''"
| "error_message GameFull = ''Game is full''"
| "error_message WhiteTaken = ''White is already taken''"
| "error_message BlackTaken = ''Black is already taken''"

subsection \<open>POST /move\<close>

definition truthy :: "string option \<Rightarrow> bool" where
  "truthy v = (case v of None \<Rightarrow> False | Some s \<Rightarrow> s \<noteq> [])"

definition has_token :: "player option \<Rightarrow> bool" where
  "has_token po = (case po of None \<Rightarrow> False | Some pl \<Rightarrow> truthy (token pl))"

definition hasWebPlayers :: "'p game \<Rightarrow> bool" where
  "hasWebPlayers g = (has_token (whitePlayer g) \<or> has_token (blackPlayer g))"

definition token_is :: "player option \<Rightarrow> string \<Rightarrow> bool" where
  "token_is po tok = (case po of None \<Rightarrow> False | Some pl \<Rightarrow> token pl = Some tok)"

definition allowedColors :: "'p game \<Rightarrow> string \<Rightarrow> string list" where
  "allowedColors g playerToken =
     (if token_is (whitePlayer g) playerToken then [''white''] else [])
     @ (if token_is (blackPlayer g) playerToken then [''black''] else [])"

definition currentColor :: "'p game \<Rightarrow> string" where
  "currentColor g = (if currentPlayer g = W then ''white'' else ''black'')"

text \<open>The token check of the handler: \<open>None\<close> when the request may go on to the move.\<close>

definition check_token :: "'p game \<Rightarrow> string option \<Rightarrow> error option" where
  "check_token g playerToken =
     (if hasWebPlayers g then
        (case playerToken of
           None \<Rightarrow> Some MissingPlayerToken
         | Some tok \<Rightarrow>
             if tok = [] then Some MissingPlayerToken
             else if allowedColors g tok = [] then Some InvalidPlayerToken
             else if currentColor g \<notin> set (allowedColors g tok) then Some NotYourTurn
             else None)
      else None)"

text \<open>
  The \<^verbatim>\<open>try\<close> block of the handler on the session: the move is put to the package with
  the promotion piece \<^verbatim>\<open>promotion || 'q'\<close>; on success the session fields are written in
  the order of the source.
\<close>

definition promotion_or_q :: "string option \<Rightarrow> string" where
  "promotion_or_q promotion = (case promotion of None \<Rightarrow> ''q'' | Some pr \<Rightarrow> if pr = [] then ''q'' else pr)"

definition try_move :: "'p chess_api \<Rightarrow> 'p game \<Rightarrow> string \<Rightarrow> string \<Rightarrow> string option \<Rightarrow> error + (string \<times> 'p game)" where
  "try_move orc g from_sq to_sq promotion =
     (case move orc (chess g) from_sq to_sq (promotion_or_q promotion) of
        Threw msg \<Rightarrow> Inl (MoveError msg)
      | NoMove \<Rightarrow> Inl InvalidMove
      | Moved san p \<Rightarrow>
          (let g1 = g\<lparr>chess := p\<rparr>;
               g2 = g1\<lparr>currentPlayer := turn orc p\<rparr>;
               g3 = g2\<lparr>selectedSquare := None\<rparr>;
               g4 = g3\<lparr>validMoves := []\<rparr>;
               g5 = g4\<lparr>lastMove := Some (from_sq, to_sq)\<rparr>;
               g6 = g5\<lparr>moveHistory := moveHistory g5 @ [san]\<rparr>;
               g7 = (if isCheckmate orc p \<or> isDraw orc p then g6\<lparr>status := Finished\<rparr> else g6)
           in Inr (san, g7)))"

text \<open>The handler on one session: the token check, then the move.\<close>

definition move_on_game :: "'p chess_api \<Rightarrow> 'p game \<Rightarrow> string \<Rightarrow> string \<Rightarrow> string option \<Rightarrow> string option \<Rightarrow> error + (string \<times> 'p game)" where
  "move_on_game orc g from_sq to_sq promotion playerToken =
     (case check_token g playerToken of
        Some e \<Rightarrow> Inl e
      | None \<Rightarrow> try_move orc g from_sq to_sq promotion)"

record move_request =
  rq_gameId :: "string option"
  rq_from :: "string option"
  rq_to :: "string option"
  rq_promotion :: "string option"
  rq_playerToken :: "string option"

record move_response =
  mr_san :: string
  mr_fen :: string
  mr_status :: status
  mr_moveHistory :: "string list"

definition mk_request :: "string \<Rightarrow> string \<Rightarrow> string \<Rightarrow> string option \<Rightarrow> string option \<Rightarrow> move_request" where
  "mk_request gameId from_sq to_sq promotion playerToken =
     \<lparr> rq_gameId = Some gameId, rq_from = Some from_sq, rq_to = Some to_sq,
       rq_promotion = promotion, rq_playerToken = playerToken \<rparr>"

definition post_move :: "'p chess_api \<Rightarrow> 'p server \<Rightarrow> move_request \<Rightarrow> (error + move_response) \<times> 'p server" where
  "post_move orc srv rq =
     (case (rq_gameId rq, rq_from rq, rq_to rq) of
        (Some gameId, Some from_sq, Some to_sq) \<Rightarrow>
          if gameId = [] \<or> from_sq = [] \<or> to_sq = [] then (Inl MissingFields, srv)
          else
            (case games srv gameId of
               None \<Rightarrow> (Inl GameNotFound, srv)
             | Some g \<Rightarrow>
                 (case move_on_game orc g from_sq to_sq (rq_promotion rq) (rq_playerToken rq) of
                    Inl e \<Rightarrow> (Inl e, srv)
                  | Inr (san, g') \<Rightarrow>
                      (Inr \<lparr> mr_san = san,
                             mr_fen = fen orc (chess g'),
                             mr_status = status g',
                             mr_moveHistory = moveHistory g' \<rparr>,
                       persist orc (srv\<lparr>games := (games srv)(gameId \<mapsto> g')\<rparr>))))
      | _ \<Rightarrow> (Inl MissingFields, srv))"

subsection \<open>GET /game/:gameId\<close>

datatype json =
    JNull
  | JBool bool
  | JNum int
  | JStr string
  | JArr "json list"
  | JObj "(string \<times> json) list"

fun source_str :: "player_source \<Rightarrow> string" where
  "source_str WEB = ''web''"
| "source_str FRAME = ''frame''"

fun status_str :: "status \<Rightarrow> string" where
  "status_str Waiting = ''waiting''"
| "status_str Active = ''active''"
| "status_str Finished = ''finished''"

fun color_str :: "color \<Rightarrow> string" where
  "color_str W = ''w''"
| "color_str B = ''b''"

definition sanitizePlayer :: "player option \<Rightarrow> json" where
  "sanitizePlayer po =
     (case po of
        None \<Rightarrow> JNull
      | Some pl \<Rightarrow>
          JObj [(''id'', JStr (player_id pl)),
                (''name'', JStr (name pl)),
                (''source'', JStr (source_str (source pl))),
                (''joinedAt'', JNum (int (joinedAt pl)))])"

definition getPlayerDisplay :: "'p game \<Rightarrow> string \<Rightarrow> json" where
  "getPlayerDisplay g col =
     (if col = ''white'' then sanitizePlayer (whitePlayer g) else sanitizePlayer (blackPlayer g))"

definition buildShareUrl :: "string \<Rightarrow> string \<Rightarrow> string \<Rightarrow> string" where
  "buildShareUrl protocol host gameId = protocol @ ''://'' @ host @ ''/play?gameId='' @ gameId"

text \<open>
  \<^verbatim>\<open>getCapturedPieces\<close>: the captures in the move list of the \<^verbatim>\<open>Chess\<close> object, by the
  colour of the capturing side.
\<close>

fun captured_by :: "color \<Rightarrow> (color \<times> string option) list \<Rightarrow> string list" where
  "captured_by c [] = []"
| "captured_by c ((mover, cap) # h) =
     (case cap of
        None \<Rightarrow> captured_by c h
      | Some x \<Rightarrow>
          if x = [] then captured_by c h
          else if mover = c then x # captured_by c h
          else captured_by c h)"

definition getCapturedPieces :: "'p chess_api \<Rightarrow> 'p game \<Rightarrow> json" where
  "getCapturedPieces orc g =
     JObj [(''white'', JArr (map JStr (captured_by W (history orc (chess g))))),
           (''black'', JArr (map JStr (captured_by B (history orc (chess g)))))]"

definition lastMove_json :: "(string \<times> string) option \<Rightarrow> json" where
  "lastMove_json lm =
     (case lm of
        None \<Rightarrow> JNull
      | Some (from_sq, to_sq) \<Rightarrow> JObj [(''from'', JStr from_sq), (''to'', JStr to_sq)])"

definition game_view :: "'p chess_api \<Rightarrow> 'p game \<Rightarrow> string \<Rightarrow> string \<Rightarrow> string \<Rightarrow> json" where
  "game_view orc g protocol host gameId =
     JObj [(''gameId'', JStr gameId),
           (''fen'', JStr (fen orc (chess g))),
           (''currentPlayer'', JStr (color_str (currentPlayer g))),
           (''status'', JStr (status_str (status g))),
           (''isCheck'', JBool (isCheck orc (chess g))),
           (''isCheckmate'', JBool (isCheckmate orc (chess g))),
           (''isDraw'', JBool (isDraw orc (chess g))),
           (''moveHistory'', JArr (map JStr (moveHistory g))),
           (''lastMove'', lastMove_json (lastMove g)),
           (''capturedPieces'', getCapturedPieces orc g),
           (''players'', JObj [(''white'', getPlayerDisplay g ''white''),
                               (''black'', getPlayerDisplay g ''black'')]),
           (''availableColors'', JObj [(''white'', JBool (whitePlayer g = None)),
                                       (''black'', JBool (blackPlayer g = None))]),
           (''shareUrl'', JStr (buildShareUrl protocol host gameId))]"

definition get_game :: "'p chess_api \<Rightarrow> 'p server \<Rightarrow> string \<Rightarrow> string \<Rightarrow> string \<Rightarrow> (error + json) \<times> 'p server" where
  "get_game orc srv protocol host gameId =
     (case games srv gameId of
        None \<Rightarrow> (Inl GameNotFound, srv)
      | Some g \<Rightarrow> (Inr (game_view orc g protocol host gameId), srv))"

text \<open>Reading a JSON object: its keys, and the value under a key.\<close>

fun json_keys :: "json \<Rightarrow> string list" where
  "json_keys (JObj kvs) = map fst kvs"
| "json_keys j = []"

fun json_field :: "string \<Rightarrow> json \<Rightarrow> json" where
  "json_field k (JObj kvs) = (case map_of kvs k of None \<Rightarrow> JNull | Some v \<Rightarrow> v)"
| "json_field k j = JNull"

subsection \<open>POST /api/games, /api/games/:gameId/join and /api/games/:gameId/solo\<close>

definition post_api_games :: "'p chess_api \<Rightarrow> nat \<Rightarrow> 'p server \<Rightarrow> string \<Rightarrow> string \<times> 'p server" where
  "post_api_games orc now srv gameId =
     (gameId, persist orc (srv\<lparr>games := (games srv)(gameId \<mapsto> createNewGame orc now)\<rparr>))"

text \<open>\<^verbatim>\<open>toLowerCase\<close> on the code units below 256.\<close>

definition toLowerCase_char :: "char \<Rightarrow> char" where
  "toLowerCase_char c =
     (let n = (of_char c :: nat) in
        if (65 \<le> n \<and> n \<le> 90) \<or> (192 \<le> n \<and> n \<le> 222 \<and> n \<noteq> 215)
        then char_of (n + 32) else c)"

definition toLowerCase :: "string \<Rightarrow> string" where
  "toLowerCase s = map toLowerCase_char s"

definition openColors :: "'p game \<Rightarrow> string list" where
  "openColors g =
     (if whitePlayer g = None then [''white''] else [])
     @ (if blackPlayer g = None then [''black''] else [])"

text \<open>
  The join handler on one session. \<open>col\<close> is the \<^verbatim>\<open>color\<close> of the body (\<open>None\<close>: absent,
  so \<^verbatim>\<open>'random'\<close>), \<open>tok\<close> the value of \<^verbatim>\<open>uuidv4()\<close>, and \<open>r\<close> the random draw:
  \<^verbatim>\<open>Math.floor(Math.random() * n)\<close> is one of \<open>0, \<dots>, n - 1\<close>, here \<open>r mod n\<close>.
\<close>

definition join_game :: "'p game \<Rightarrow> string option \<Rightarrow> string option \<Rightarrow> string \<Rightarrow> nat \<Rightarrow> nat \<Rightarrow> error + (string \<times> 'p game)" where
  "join_game g col nm tok r now =
     (let normalizedColor = toLowerCase (case col of None \<Rightarrow> ''random'' | Some c \<Rightarrow> c) in
        if normalizedColor \<notin> set [''white'', ''black'', ''random''] then Inl InvalidColor
        else if openColors g = [] then Inl GameFull
        else
          (let targetColor =
                 (if normalizedColor = ''random''
                  then openColors g ! (r mod length (openColors g))
                  else normalizedColor)
           in
             if targetColor = ''white'' \<and> whitePlayer g \<noteq> None then Inl WhiteTaken
             else if targetColor = ''black'' \<and> blackPlayer g \<noteq> None then Inl BlackTaken
             else
               (let displayName =
                      formatPlayerName nm
                        (if targetColor = ''white'' then ''White Player'' else ''Black Player'');
                    pl = createPlayer (tok @ ''-'' @ targetColor) displayName (Some tok) WEB now
                in Inr (targetColor, assignPlayer g targetColor pl now))))"

definition post_join :: "'p chess_api \<Rightarrow> nat \<Rightarrow> 'p server \<Rightarrow> string \<Rightarrow> string option \<Rightarrow> string option \<Rightarrow> string \<Rightarrow> nat \<Rightarrow> (error + (string \<times> string)) \<times> 'p server" where
  "post_join orc now srv gameId col nm tok r =
     (case games srv gameId of
        None \<Rightarrow> (Inl GameNotFound, srv)
      | Some g \<Rightarrow>
          (case join_game g col nm tok r now of
             Inl e \<Rightarrow> (Inl e, srv)
           | Inr (targetColor, g') \<Rightarrow>
               (Inr (targetColor, tok),
                persist orc (srv\<lparr>games := (games srv)(gameId \<mapsto> g')\<rparr>))))"

text \<open>
  The solo handler on one session: \<^verbatim>\<open>resetGameState\<close>, then both seats are given to
  players that carry the same new token, then the status is set to \<^verbatim>\<open>active\<close>.
\<close>

definition solo_game :: "'p chess_api \<Rightarrow> 'p game \<Rightarrow> string option \<Rightarrow> string \<Rightarrow> nat \<Rightarrow> 'p game" where
  "solo_game orc g nm tok now =
     (let soloName = formatPlayerName nm ''Solo Player'';
          g1 = resetGameState orc g;
          wp = createPlayer (tok @ ''-white'') (soloName @ '' (White)'') (Some tok) WEB now;
          bp = createPlayer (tok @ ''-black'') (soloName @ '' (Black)'') (Some tok) WEB now;
          g2 = assignPlayer g1 ''white'' wp now;
          g3 = assignPlayer g2 ''black'' bp now
      in g3\<lparr>status := Active\<rparr>)"

definition post_solo :: "'p chess_api \<Rightarrow> nat \<Rightarrow> 'p server \<Rightarrow> string \<Rightarrow> string option \<Rightarrow> string \<Rightarrow> string \<times> 'p server" where
  "post_solo orc now srv gameId nm tok =
     (let g = (case games srv gameId of None \<Rightarrow> createNewGame orc now | Some g0 \<Rightarrow> g0)
      in (tok, persist orc (srv\<lparr>games := (games srv)(gameId \<mapsto> solo_game orc g nm tok now)\<rparr>)))"

subsection \<open>The frame: GET / and POST /frame\<close>

text \<open>
  Both handlers end by composing the page. In that part a session that is active and
  whose position is checkmate or drawn is set to finished; nothing else of the session
  is written there. The page itself is not modelled.
\<close>

definition render_status :: "'p chess_api \<Rightarrow> 'p game \<Rightarrow> 'p game" where
  "render_status orc g =
     (if status g = Active then
        (if isCheckmate orc (chess g) then g\<lparr>status := Finished\<rparr>
         else if isDraw orc (chess g) then g\<lparr>status := Finished\<rparr>
         else g)
      else g)"

definition get_root :: "'p chess_api \<Rightarrow> nat \<Rightarrow> 'p server \<Rightarrow> string \<Rightarrow> 'p server" where
  "get_root orc now srv gameId =
     (case getOrCreateGame orc now (games srv) gameId of
        (games1, g) \<Rightarrow> srv\<lparr>games := games1(gameId \<mapsto> render_status orc g)\<rparr>)"

text \<open>
  The move text of a frame, \<^verbatim>\<open>/^([a-h][1-8])([a-h][1-8])([qrbn])?$/i\<close>: the two squares
  and the promotion letter, if the whole text matches.
\<close>

definition is_file :: "char \<Rightarrow> bool" where
  "is_file c = (c \<in> set ''abcdefghABCDEFGH'')"

definition is_rank :: "char \<Rightarrow> bool" where
  "is_rank c = (c \<in> set ''12345678'')"

definition is_promo :: "char \<Rightarrow> bool" where
  "is_promo c = (c \<in> set ''qrbnQRBN'')"

definition movePattern :: "string \<Rightarrow> (string \<times> string \<times> string option) option" where
  "movePattern s =
     (if (length s = 4 \<or> length s = 5)
         \<and> is_file (s ! 0) \<and> is_rank (s ! 1) \<and> is_file (s ! 2) \<and> is_rank (s ! 3)
         \<and> (if length s = 5 then is_promo (s ! 4) else True)
      then Some (take 2 s, take 2 (drop 2 s), if length s = 5 then Some (drop 4 s) else None)
      else None)"

text \<open>
  The move of a frame on an active session: \<open>Some\<close> the session after the move when a
  move was made, \<open>None\<close> when the text does not match, the piece on the first square is
  not of the side to move, or the package refuses the move (the source ignores all of
  these).
\<close>

definition frame_move :: "'p chess_api \<Rightarrow> 'p game \<Rightarrow> string \<Rightarrow> 'p game option" where
  "frame_move orc g inputText =
     (case movePattern (trim inputText) of
        None \<Rightarrow> None
      | Some (m1, m2, m3) \<Rightarrow>
          (let from_sq = toLowerCase m1;
               to_sq = toLowerCase m2;
               promotion = map_option toLowerCase m3
           in
             if (case get orc (chess g) from_sq of None \<Rightarrow> True | Some c \<Rightarrow> c = currentPlayer g)
             then
               (case move orc (chess g) from_sq to_sq
                       (case promotion of None \<Rightarrow> ''q'' | Some pr \<Rightarrow> pr) of
                  Threw msg \<Rightarrow> None
                | NoMove \<Rightarrow> None
                | Moved san p \<Rightarrow>
                    (let g1 = g\<lparr>chess := p\<rparr>;
                         g2 = g1\<lparr>lastMove := Some (from_sq, to_sq)\<rparr>;
                         g3 = g2\<lparr>currentPlayer := turn orc p\<rparr>;
                         g4 = g3\<lparr>selectedSquare := None\<rparr>;
                         g5 = g4\<lparr>validMoves := []\<rparr>;
                         g6 = g5\<lparr>moveHistory := moveHistory g5 @ [san]\<rparr>
                     in Some (if isCheckmate orc p \<or> isDraw orc p
                              then g6\<lparr>status := Finished\<rparr> else g6)))
             else None))"

text \<open>
  The button part of \<^verbatim>\<open>POST /frame\<close> on the session object. \<open>b\<close> is the button index
  (\<open>0\<close>: none), \<open>fid\<close> is \<^verbatim>\<open>String(untrustedData.fid || 'unknown')\<close>. The buttons that
  start a new game leave this object as it is and replace the entry of the map
  (\<open>frame_replaces\<close>).
\<close>

definition frame_buttons :: "'p chess_api \<Rightarrow> nat \<Rightarrow> 'p game \<Rightarrow> string \<Rightarrow> nat \<Rightarrow> string option \<Rightarrow> 'p game" where
  "frame_buttons orc now g fid b inputText =
     (if b = 0 then g
      else if status g = Waiting then
        (if b = 1 then
           (let g1 = assignPlayer g ''white'' (createPlayer fid (''FID '' @ fid) None FRAME now) now
            in if blackPlayer g1 \<noteq> None then g1\<lparr>status := Active\<rparr> else g1)
         else if b = 2 then
           (let g1 = assignPlayer g ''black'' (createPlayer fid (''FID '' @ fid) None FRAME now) now
            in if whitePlayer g1 \<noteq> None then g1\<lparr>status := Active\<rparr> else g1)
         else if b = 3 then
           (let pl = createPlayer fid (''FID '' @ fid) None FRAME now;
                g1 = assignPlayer g ''white'' pl now;
                g2 = assignPlayer g1 ''black'' pl now
            in g2\<lparr>status := Active\<rparr>)
         else g)
      else if status g = Active then
        (if b = 1 \<and> truthy inputText then
           (case frame_move orc g (case inputText of None \<Rightarrow> [] | Some t \<Rightarrow> t) of
              None \<Rightarrow> g
            | Some g' \<Rightarrow> g')
         else if b = 2 then g
         else if b = 3 then g
         else if b = 4 then g\<lparr>status := Finished\<rparr>
         else g)
      else g)"

definition frame_replaces :: "'p game \<Rightarrow> nat \<Rightarrow> string option \<Rightarrow> bool" where
  "frame_replaces g b inputText =
     (if b = 0 then False
      else if status g = Waiting then False
      else if status g = Active then
        (if b = 1 \<and> truthy inputText then False
         else if b = 2 then False
         else b = 3)
      else if status g = Finished then b = 1
      else False)"

definition post_frame :: "'p chess_api \<Rightarrow> nat \<Rightarrow> 'p server \<Rightarrow> string \<Rightarrow> string \<Rightarrow> nat \<Rightarrow> string option \<Rightarrow> 'p server" where
  "post_frame orc now srv gameId fid b inputText =
     (case getOrCreateGame orc now (games srv) gameId of
        (games1, g) \<Rightarrow>
          if frame_replaces g b inputText
          then persist orc (srv\<lparr>games := games1(gameId \<mapsto> createNewGame orc now)\<rparr>)
          else srv\<lparr>games :=
                 games1(gameId \<mapsto> render_status orc (frame_buttons orc now g fid b inputText))\<rparr>)"

text \<open>
  Whether a frame request ends the game on the session object: it resigns, or it makes
  a move after which the package reports checkmate or a draw.
\<close>

definition frame_ends :: "'p chess_api \<Rightarrow> 'p game \<Rightarrow> nat \<Rightarrow> string option \<Rightarrow> bool" where
  "frame_ends orc g b inputText =
     (b \<noteq> 0 \<and> status g = Active \<and>
      (if b = 1 \<and> truthy inputText then
         (case frame_move orc g (case inputText of None \<Rightarrow> [] | Some t \<Rightarrow> t) of
            None \<Rightarrow> False
          | Some g' \<Rightarrow> isCheckmate orc (chess g') \<or> isDraw orc (chess g'))
       else b = 4))"

subsection \<open>Sessions the operations can produce\<close>

text \<open>
  \<open>reachable orc g t\<close>: the session \<open>g\<close> can be produced by the operations of the server
  from a new session, and \<open>t\<close> records whether, since the session was last reset, a
  terminal condition was reached: the package reported checkmate or a draw after a move
  or when a page was composed for the active session, or a player resigned. A new game
  started from a frame is a new session (the first rule). The restore rule reads an entry
  the server wrote, with any text in place of the stored position. The tokens of the
  join and solo rules are values of \<^verbatim>\<open>uuidv4()\<close>, which is never the empty string.
\<close>

inductive reachable :: "'p chess_api \<Rightarrow> 'p game \<Rightarrow> bool \<Rightarrow> bool" for orc :: "'p chess_api" where
  r_new: "reachable orc (createNewGame orc now) False"
| r_join: "reachable orc g t \<Longrightarrow> join_game g col nm tok r now = Inr (c, g') \<Longrightarrow> tok \<noteq> []
           \<Longrightarrow> reachable orc g' t"
| r_solo: "reachable orc g t \<Longrightarrow> tok \<noteq> [] \<Longrightarrow> reachable orc (solo_game orc g nm tok now) False"
| r_move: "reachable orc g t \<Longrightarrow> move_on_game orc g from_sq to_sq promotion playerToken = Inr (san, g')
           \<Longrightarrow> reachable orc g' (t \<or> isCheckmate orc (chess g') \<or> isDraw orc (chess g'))"
| r_frame: "reachable orc g t
           \<Longrightarrow> reachable orc (frame_buttons orc now g fid b inputText) (t \<or> frame_ends orc g b inputText)"
| r_render: "reachable orc g t
           \<Longrightarrow> reachable orc (render_status orc g)
                 (t \<or> (status g = Active \<and> (isCheckmate orc (chess g) \<or> isDraw orc (chess g))))"
| r_restore: "reachable orc g t
           \<Longrightarrow> reachable orc (loadGame orc now ((serializeGame orc g)\<lparr>sv_fen := f\<rparr>)) t"

text \<open>The binding of the seat of a colour.\<close>

fun seat :: "'p game \<Rightarrow> color \<Rightarrow> player option" where
  "seat g W = whitePlayer g"
| "seat g B = blackPlayer g"


text \<open>No seat holds the empty string as its token.\<close>

definition tokens_ok :: "'p game \<Rightarrow> bool" where
  "tokens_ok g =
     ((case whitePlayer g of None \<Rightarrow> True | Some pl \<Rightarrow> token pl \<noteq> Some [])
      \<and> (case blackPlayer g of None \<Rightarrow> True | Some pl \<Rightarrow> token pl \<noteq> Some []))"

text \<open>
  Every stored session is one the operations can produce, and every entry of the snapshot
  file is the entry of such a session, up to the text of its position.
\<close>

definition sessions_ok :: "'p chess_api \<Rightarrow> 'p server \<Rightarrow> bool" where
  "sessions_ok orc srv =
     ((\<forall>gameId g. games srv gameId = Some g \<longrightarrow> (\<exists>t. reachable orc g t))
      \<and> (\<forall>file gameId d. disk srv = Some file \<longrightarrow> file gameId = Some d \<longrightarrow>
            (\<exists>g t f. reachable orc g t \<and> d = (serializeGame orc g)\<lparr>sv_fen := f\<rparr>)))"

text \<open>The side to move of the position of a session.\<close>

definition position_turn :: "'p chess_api \<Rightarrow> 'p game \<Rightarrow> color" where
  "position_turn orc g = turn orc (chess g)"

text \<open>
  The relation between the status, the seats and the record \<open>t\<close> of a terminal condition
  that the operations keep.
\<close>

definition status_ok :: "'p game \<Rightarrow> bool \<Rightarrow> bool" where
  "status_ok g t =
     ((status g = Finished \<longleftrightarrow> t)
      \<and> (status g = Active \<longleftrightarrow> whitePlayer g \<noteq> None \<and> blackPlayer g \<noteq> None \<and> \<not> t))"

subsection \<open>A small instance of the rules oracle\<close>

text \<open>
  An instance of \<open>chess_api\<close> to run the handlers on: the positions of two short games
  from the initial position (1. e4 e5 and 1. f3 e5 2. g4 Qh4 mate). A position is the
  list of moves played (from, to, notation); the table \<open>book_fens\<close> lists the positions
  with their FEN text, which is the serialized form. The moves of these two games are the
  only legal ones, every other move is refused with an exception. The colour on a square
  is found by replaying the moves on the initial set-up.
\<close>

type_synonym book_position = "(string \<times> string \<times> string) list"

definition book_e4 :: "string \<times> string \<times> string" where "book_e4 = (''e2'', ''e4'', ''e4'')"
definition book_e5 :: "string \<times> string \<times> string" where "book_e5 = (''e7'', ''e5'', ''e5'')"
definition book_f3 :: "string \<times> string \<times> string" where "book_f3 = (''f2'', ''f3'', ''f3'')"
definition book_g4 :: "string \<times> string \<times> string" where "book_g4 = (''g2'', ''g4'', ''g4'')"
definition book_Qh4 :: "string \<times> string \<times> string" where "book_Qh4 = (''d8'', ''h4'', ''Qh4#'')"

definition book_fens :: "(book_position \<times> string) list" where
  "book_fens =
     [([], ''rnbqkbnr/pppppppp/8/8/8/8/PPPPPPPP/RNBQKBNR w KQkq - 0 1''),
      ([book_e4], ''rnbqkbnr/pppppppp/8/8/4P3/8/PPPP1PPP/RNBQKBNR b KQkq - 0 1''),
      ([book_e4, book_e5], ''rnbqkbnr/pppp1ppp/8/4p3/4P3/8/PPPP1PPP/RNBQKBNR w KQkq - 0 2''),
      ([book_f3], ''rnbqkbnr/pppppppp/8/8/8/5P2/PPPPP1PP/RNBQKBNR b KQkq - 0 1''),
      ([book_f3, book_e5], ''rnbqkbnr/pppp1ppp/8/4p3/8/5P2/PPPPP1PP/RNBQKBNR w KQkq - 0 2''),
      ([book_f3, book_e5, book_g4],
         ''rnbqkbnr/pppp1ppp/8/4p3/6P1/5P2/PPPPP2P/RNBQKBNR b KQkq - 0 2''),
      ([book_f3, book_e5, book_g4, book_Qh4],
         ''rnb1kbnr/pppp1ppp/8/4p3/6Pq/5P2/PPPPP2P/RNBQKBNR w KQkq - 1 3'')]"

text \<open>The legal moves at a position: the moves that lead to a position of the table.\<close>

definition book_next :: "book_position \<Rightarrow> (string \<times> string \<times> string) list" where
  "book_next p =
     concat (map (\<lambda>(q, f). if q \<noteq> [] \<and> butlast q = p then [last q] else []) book_fens)"

definition book_move :: "book_position \<Rightarrow> string \<Rightarrow> string \<Rightarrow> string \<Rightarrow> book_position move_outcome" where
  "book_move p from_sq to_sq promotion =
     (case find (\<lambda>(f, t, s). f = from_sq \<and> t = to_sq) (book_next p) of
        None \<Rightarrow> Threw (''Invalid move: '' @ from_sq @ to_sq)
      | Some m \<Rightarrow> Moved (snd (snd m)) (p @ [m]))"

definition book_turn :: "book_position \<Rightarrow> color" where
  "book_turn p = (if even (length p) then W else B)"

definition book_isCheckmate :: "book_position \<Rightarrow> bool" where
  "book_isCheckmate p = (p = [book_f3, book_e5, book_g4, book_Qh4])"

definition book_fen :: "book_position \<Rightarrow> string" where
  "book_fen p = (case map_of book_fens p of None \<Rightarrow> ''8/8/8/8/8/8/8/8 w - - 0 1'' | Some f \<Rightarrow> f)"

definition book_load :: "string \<Rightarrow> book_position option" where
  "book_load txt = map_option fst (find (\<lambda>(q, f). f = txt) book_fens)"

definition book_start :: "string \<Rightarrow> color option" where
  "book_start sq =
     (if length sq = 2 \<and> is_file (sq ! 0) \<and> sq ! 1 \<in> set ''12'' then Some W
      else if length sq = 2 \<and> is_file (sq ! 0) \<and> sq ! 1 \<in> set ''78'' then Some B
      else None)"

fun book_board :: "book_position \<Rightarrow> string \<Rightarrow> color option" where
  "book_board [] sq = book_start sq"
| "book_board ((f, t, s) # ms) sq =
     (if sq = f then None
      else if sq = t then book_start f
      else book_board ms sq)"

definition book_get :: "book_position \<Rightarrow> string \<Rightarrow> color option" where
  "book_get p sq = book_board (rev p) sq"

definition book_history :: "book_position \<Rightarrow> (color \<times> string option) list" where
  "book_history p = map (\<lambda>i. (if even i then W else B, None)) [0..<length p]"

definition book :: "book_position chess_api" where
  "book =
     \<lparr> Chess_new = [],
       move = book_move,
       turn = book_turn,
       isCheck = book_isCheckmate,
       isCheckmate = book_isCheckmate,
       isDraw = (\<lambda>p. False),
       fen = book_fen,
       load = book_load,
       get = book_get,
       history = book_history \<rparr>"

subsection \<open>Example requests\<close>

text \<open>
  A server started without a snapshot file, on which \<^verbatim>\<open>POST /api/games\<close> has created the
  session \<^verbatim>\<open>g1\<close>.
\<close>

definition demo_created :: "book_position server" where
  "demo_created = snd (post_api_games book 0 (start_server book 0 None) ''g1'')"



definition demo_solo :: "book_position server" where
  "demo_solo = snd (post_solo book 2 demo_created ''g1'' (Some ''Solo'') ''tok-s'')"

text \<open>
  The response to the move from \<^verbatim>\<open>e2\<close> to \<^verbatim>\<open>e4\<close> in the new session \<^verbatim>\<open>g1\<close>, and the
  session and the server after it.
\<close>

definition demo_e4_response :: move_response where
  "demo_e4_response =
     \<lparr> mr_san = ''e4'',
       mr_fen = ''rnbqkbnr/pppppppp/8/8/4P3/8/PPPP1PPP/RNBQKBNR b KQkq - 0 1'',
       mr_status = Waiting,
       mr_moveHistory = [''e4''] \<rparr>"

definition demo_e4_game :: "book_position game" where
  "demo_e4_game =
     (createNewGame book 0)
       \<lparr> chess := [(''e2'', ''e4'', ''e4'')], currentPlayer := B,
         lastMove := Some (''e2'', ''e4''), moveHistory := [''e4''] \<rparr>"

definition demo_after_e4 :: "book_position server" where
  "demo_after_e4 = persist book (demo_created\<lparr>games := (games demo_created)(''g1'' \<mapsto> demo_e4_game)\<rparr>)"

text \<open>
  A server started without a snapshot file on which \<^verbatim>\<open>POST /api/games/__proto__/solo\<close>
  was called; and a snapshot file as the server wrote it after the move from \<^verbatim>\<open>e2\<close> to
  \<^verbatim>\<open>e4\<close> in \<^verbatim>\<open>g1\<close>, in which the \<^verbatim>\<open>fen\<close> text of \<^verbatim>\<open>g1\<close> was then damaged.
\<close>

definition demo_proto :: "book_position server" where
  "demo_proto = snd (post_solo book 2 (start_server book 0 None) ''__proto__'' (Some ''Solo'') ''tok-s'')"

definition demo_damaged_file :: "snapshot option" where
  "demo_damaged_file =
     Some ((persistGamesToDisk book (games demo_after_e4))
             (''g1'' \<mapsto> (serializeGame book demo_e4_game)\<lparr>sv_fen := Some ''not a position''\<rparr>))"

section \<open>Properties\<close>

subsection \<open>Facts about the example oracle\<close>

lemma book_simps:
  "Chess_new book = []" "move book = book_move" "turn book = book_turn"
  "isCheck book = book_isCheckmate" "isCheckmate book = book_isCheckmate"
  "isDraw book = (\<lambda>p. False)" "fen book = book_fen" "load book = book_load"
  "get book = book_get" "history book = book_history"
  by (simp_all add: book_def)

lemma promotion_or_q_simps [simp]:
  "promotion_or_q None = ''q''" "promotion_or_q (Some []) = ''q''"
  "pr \<noteq> [] \<Longrightarrow> promotion_or_q (Some pr) = pr"
  by (simp_all add: promotion_or_q_def)

lemmas book_moves_defs = book_e4_def book_e5_def book_f3_def book_g4_def book_Qh4_def

lemma book_move_e4: "book_move [] ''e2'' ''e4'' ''q'' = Moved ''e4'' [(''e2'', ''e4'', ''e4'')]"
  by (simp add: book_move_def book_next_def book_fens_def book_moves_defs)

lemma book_move_e4_e5:
  "book_move [(''e2'', ''e4'', ''e4'')] ''e7'' ''e5'' ''q''
     = Moved ''e5'' [(''e2'', ''e4'', ''e4''), (''e7'', ''e5'', ''e5'')]"
  by (simp add: book_move_def book_next_def book_fens_def book_moves_defs)

lemma book_move_e2_e5: "book_move [] ''e2'' ''e5'' ''q'' = Threw ''Invalid move: e2e5''"
  by (simp add: book_move_def book_next_def book_fens_def book_moves_defs)

lemma book_fen_start: "book_fen [] = ''rnbqkbnr/pppppppp/8/8/8/8/PPPPPPPP/RNBQKBNR w KQkq - 0 1''"
  by (simp add: book_fen_def book_fens_def book_moves_defs)

lemma book_fen_e4:
  "book_fen [(''e2'', ''e4'', ''e4'')] = ''rnbqkbnr/pppppppp/8/8/4P3/8/PPPP1PPP/RNBQKBNR b KQkq - 0 1''"
  by (simp add: book_fen_def book_fens_def book_moves_defs)

lemma book_not_mate:
  "\<not> book_isCheckmate []" "\<not> book_isCheckmate [(''e2'', ''e4'', ''e4'')]"
  "\<not> book_isCheckmate [(''e2'', ''e4'', ''e4''), (''e7'', ''e5'', ''e5'')]"
  by (simp_all add: book_isCheckmate_def book_moves_defs)

lemma book_turns:
  "book_turn [] = W" "book_turn [(''e2'', ''e4'', ''e4'')] = B"
  "book_turn [(''e2'', ''e4'', ''e4''), (''e7'', ''e5'', ''e5'')] = W"
  by (simp_all add: book_turn_def)

lemma book_load_damaged: "book_load ''not a position'' = None"
  by (simp add: book_load_def book_fens_def)


subsection \<open>Facts about the handlers\<close>

text \<open>The move handler on one session, and on the server.\<close>

lemma try_move_Inr:
  assumes "try_move orc g from_sq to_sq promotion = Inr (san, g')"
  shows "move orc (chess g) from_sq to_sq (promotion_or_q promotion) = Moved san (chess g')
    \<and> currentPlayer g' = turn orc (chess g')
    \<and> moveHistory g' = moveHistory g @ [san]
    \<and> lastMove g' = Some (from_sq, to_sq)
    \<and> selectedSquare g' = None \<and> validMoves g' = []
    \<and> whitePlayer g' = whitePlayer g \<and> blackPlayer g' = blackPlayer g
    \<and> createdAt g' = createdAt g \<and> updatedAt g' = updatedAt g
    \<and> status g' = (if isCheckmate orc (chess g') \<or> isDraw orc (chess g') then Finished else status g)"
  using assms by (auto simp: try_move_def Let_def split: move_outcome.splits)

lemma try_move_Moved:
  assumes "move orc (chess g) from_sq to_sq (promotion_or_q promotion) = Moved san p"
  shows "\<exists>g'. try_move orc g from_sq to_sq promotion = Inr (san, g')
       \<and> chess g' = p \<and> moveHistory g' = moveHistory g @ [san]
       \<and> whitePlayer g' = whitePlayer g \<and> blackPlayer g' = blackPlayer g"
  using assms by (simp add: try_move_def Let_def)

lemma move_on_game_Inr:
  assumes "move_on_game orc g from_sq to_sq promotion playerToken = Inr (san, g')"
  shows "check_token g playerToken = None \<and> try_move orc g from_sq to_sq promotion = Inr (san, g')"
  using assms by (auto simp: move_on_game_def split: option.splits)

lemma post_move_found:
  assumes "games srv gid = Some g" "gid \<noteq> []" "from_sq \<noteq> []" "to_sq \<noteq> []"
  shows "post_move orc srv (mk_request gid from_sq to_sq promotion playerToken) =
     (case move_on_game orc g from_sq to_sq promotion playerToken of
        Inl e \<Rightarrow> (Inl e, srv)
      | Inr (san, g') \<Rightarrow>
          (Inr \<lparr> mr_san = san, mr_fen = fen orc (chess g'), mr_status = status g',
                 mr_moveHistory = moveHistory g' \<rparr>,
           persist orc (srv\<lparr>games := (games srv)(gid \<mapsto> g')\<rparr>)))"
  using assms by (simp add: post_move_def mk_request_def)

lemma post_move_Inr:
  assumes "post_move orc srv rq = (Inr resp, srv')"
  shows "\<exists>gid from_sq to_sq g g'.
      rq_gameId rq = Some gid \<and> rq_from rq = Some from_sq \<and> rq_to rq = Some to_sq
      \<and> games srv gid = Some g
      \<and> move_on_game orc g from_sq to_sq (rq_promotion rq) (rq_playerToken rq) = Inr (mr_san resp, g')
      \<and> resp = \<lparr> mr_san = mr_san resp, mr_fen = fen orc (chess g'), mr_status = status g',
                  mr_moveHistory = moveHistory g' \<rparr>
      \<and> srv' = persist orc (srv\<lparr>games := (games srv)(gid \<mapsto> g')\<rparr>)"
  using assms
  by (auto simp: post_move_def split: option.splits if_splits sum.splits prod.splits)

lemma post_move_cases:
  "(\<exists>e. post_move orc srv rq = (Inl e, srv))
   \<or> (\<exists>resp gid from_sq to_sq g g'. games srv gid = Some g
        \<and> move_on_game orc g from_sq to_sq (rq_promotion rq) (rq_playerToken rq) = Inr (mr_san resp, g')
        \<and> post_move orc srv rq = (Inr resp, persist orc (srv\<lparr>games := (games srv)(gid \<mapsto> g')\<rparr>)))"
proof (cases "post_move orc srv rq")
  case (Pair res srv')
  show ?thesis
  proof (cases res)
    case (Inl e)
    with Pair have "srv' = srv"
      by (auto simp: post_move_def split: option.splits if_splits sum.splits prod.splits)
    with Pair Inl show ?thesis by simp
  next
    case (Inr resp)
    from post_move_Inr [OF Pair [unfolded Inr]] Pair Inr show ?thesis by blast
  qed
qed

lemma post_move_applied:
  assumes g: "games srv gid = Some g" and ne: "gid \<noteq> []" "from_sq \<noteq> []" "to_sq \<noteq> []"
    and tok: "check_token g playerToken = None"
    and mv: "move orc (chess g) from_sq to_sq (promotion_or_q promotion) = Moved san p"
  shows "\<exists>resp srv' g'. post_move orc srv (mk_request gid from_sq to_sq promotion playerToken) = (Inr resp, srv')
       \<and> games srv' gid = Some g' \<and> mr_moveHistory resp = moveHistory g'
       \<and> chess g' = p \<and> moveHistory g' = moveHistory g @ [san]
       \<and> whitePlayer g' = whitePlayer g \<and> blackPlayer g' = blackPlayer g"
proof -
  from try_move_Moved [OF mv] obtain g' where
    t: "try_move orc g from_sq to_sq promotion = Inr (san, g')"
    and f: "chess g' = p" "moveHistory g' = moveHistory g @ [san]"
      "whitePlayer g' = whitePlayer g" "blackPlayer g' = blackPlayer g"
    by blast
  have "post_move orc srv (mk_request gid from_sq to_sq promotion playerToken)
      = (Inr \<lparr> mr_san = san, mr_fen = fen orc (chess g'), mr_status = status g',
                 mr_moveHistory = moveHistory g' \<rparr>,
           persist orc (srv\<lparr>games := (games srv)(gid \<mapsto> g')\<rparr>))"
    by (simp add: post_move_found [OF g ne] move_on_game_def tok t)
  moreover have "games (persist orc (srv\<lparr>games := (games srv)(gid \<mapsto> g')\<rparr>)) gid = Some g'"
    by (simp add: persist_def)
  ultimately show ?thesis using f by simp
qed

text \<open>The token check in terms of the seats.\<close>

lemma allowedColors_empty:
  "allowedColors g k = [] \<longleftrightarrow> \<not> token_is (whitePlayer g) k \<and> \<not> token_is (blackPlayer g) k"
  by (simp add: allowedColors_def)

lemma currentColor_allowed:
  "currentColor g \<in> set (allowedColors g k) \<longleftrightarrow> token_is (seat g (currentPlayer g)) k"
  by (cases "currentPlayer g") (auto simp: allowedColors_def currentColor_def)

lemma check_token_cases:
  "check_token g tok =
     (if has_token (whitePlayer g) \<or> has_token (blackPlayer g) then
        (case tok of
           None \<Rightarrow> Some MissingPlayerToken
         | Some k \<Rightarrow>
             if k = [] then Some MissingPlayerToken
             else if \<not> token_is (whitePlayer g) k \<and> \<not> token_is (blackPlayer g) k
               then Some InvalidPlayerToken
             else if \<not> token_is (seat g (currentPlayer g)) k then Some NotYourTurn
             else None)
      else None)"
  by (simp add: check_token_def hasWebPlayers_def allowedColors_empty currentColor_allowed
      split: option.splits)

lemma check_token_both:
  assumes "whitePlayer g = Some wp" "blackPlayer g = Some bp"
    "token wp = Some tok" "token bp = Some tok"
  shows "check_token g (Some tok) = None"
  using assms
  by (cases "currentPlayer g") (simp_all add: check_token_cases token_is_def has_token_def truthy_def)

text \<open>Join, solo and the move of a frame.\<close>

lemma createPlayer_token: "token (createPlayer i n tok src now) = tok"
  by (simp add: createPlayer_def)

lemma join_game_Inr:
  assumes "join_game g col nm tok r now = Inr (c, g')"
  shows "\<exists>pl. g' = assignPlayer g c pl now"
  using assms by (auto simp: join_game_def Let_def split: if_splits)


lemma solo_game_fields:
  "whitePlayer (solo_game orc g nm tok now)
     = Some (createPlayer (tok @ ''-white'') (formatPlayerName nm ''Solo Player'' @ '' (White)'')
               (Some tok) WEB now)"
  "blackPlayer (solo_game orc g nm tok now)
     = Some (createPlayer (tok @ ''-black'') (formatPlayerName nm ''Solo Player'' @ '' (Black)'')
               (Some tok) WEB now)"
  "chess (solo_game orc g nm tok now) = Chess_new orc"
  "status (solo_game orc g nm tok now) = Active"
  "moveHistory (solo_game orc g nm tok now) = []"
  "lastMove (solo_game orc g nm tok now) = None"
  "currentPlayer (solo_game orc g nm tok now) = W"
  by (simp_all add: solo_game_def resetGameState_def assignPlayer_def Let_def)

lemma check_token_solo:
  assumes "whitePlayer g' = whitePlayer (solo_game orc g nm tok now)"
    "blackPlayer g' = blackPlayer (solo_game orc g nm tok now)"
  shows "check_token g' (Some tok) = None"
  by (rule check_token_both [where wp = "createPlayer (tok @ ''-white'') (formatPlayerName nm ''Solo Player'' @ '' (White)'') (Some tok) WEB now"
        and bp = "createPlayer (tok @ ''-black'') (formatPlayerName nm ''Solo Player'' @ '' (Black)'') (Some tok) WEB now"])
    (simp_all add: assms solo_game_fields createPlayer_token)

lemma post_solo_game:
  "games (snd (post_solo orc now srv gid nm tok)) gid
     = Some (solo_game orc (case games srv gid of None \<Rightarrow> createNewGame orc now | Some g0 \<Rightarrow> g0) nm tok now)"
  by (simp add: post_solo_def persist_def Let_def)

lemma post_solo_disk:
  "disk (snd (post_solo orc now srv gid nm tok))
     = Some (persistGamesToDisk orc (games (snd (post_solo orc now srv gid nm tok))))"
  by (simp add: post_solo_def persist_def Let_def)

lemma frame_move_Some:
  assumes "frame_move orc g txt = Some g'"
  shows "whitePlayer g' = whitePlayer g \<and> blackPlayer g' = blackPlayer g
     \<and> status g' = (if isCheckmate orc (chess g') \<or> isDraw orc (chess g') then Finished else status g)
     \<and> currentPlayer g' = turn orc (chess g')"
  using assms
  by (auto simp: frame_move_def Let_def split: option.splits prod.splits if_splits move_outcome.splits)

text \<open>The public view and the snapshot entries.\<close>

lemma sanitizePlayer_keys:
  "json_keys (sanitizePlayer po)
     = (case po of None \<Rightarrow> [] | Some pl \<Rightarrow> [''id'', ''name'', ''source'', ''joinedAt''])"
  by (simp add: sanitizePlayer_def split: option.splits)

lemma game_view_players:
  "json_field ''white'' (json_field ''players'' (game_view orc g protocol host gid))
     = sanitizePlayer (whitePlayer g)"
  "json_field ''black'' (json_field ''players'' (game_view orc g protocol host gid))
     = sanitizePlayer (blackPlayer g)"
  by (simp_all add: game_view_def getPlayerDisplay_def)

lemma loadGame_serializeGame:
  assumes "fen orc (chess g) \<noteq> []" and "load orc (fen orc (chess g)) = Some p"
    and "createdAt g \<noteq> 0" and "updatedAt g \<noteq> 0"
  shows "loadGame orc now (serializeGame orc g)
           = g\<lparr>chess := p, selectedSquare := None, validMoves := []\<rparr>"
  using assms by (simp add: loadGame_def serializeGame_def)

lemma serializeGame_fen: "(serializeGame orc g)\<lparr>sv_fen := Some (fen orc (chess g))\<rparr> = serializeGame orc g"
  by (simp add: serializeGame_def)

subsection \<open>Invariants of the sessions the operations produce\<close>

text \<open>The status, the seats and the terminal conditions.\<close>

lemma status_ok_new: "status_ok (createNewGame orc now) False"
  by (simp add: status_ok_def createNewGame_def)

lemma status_ok_assignPlayer:
  "status_ok g t \<Longrightarrow> status_ok (assignPlayer g col pl now) t"
  by (cases "status g") (auto simp: status_ok_def assignPlayer_def Let_def)

lemma status_ok_solo: "status_ok (solo_game orc g nm tok now) False"
  by (simp add: status_ok_def solo_game_fields)

lemma status_ok_move:
  assumes "status_ok g t" and "move_on_game orc g from_sq to_sq promotion playerToken = Inr (san, g')"
  shows "status_ok g' (t \<or> isCheckmate orc (chess g') \<or> isDraw orc (chess g'))"
proof -
  from move_on_game_Inr [OF assms(2)]
  have "try_move orc g from_sq to_sq promotion = Inr (san, g')" by simp
  from try_move_Inr [OF this] assms(1) show ?thesis
    by (auto simp: status_ok_def)
qed

lemma status_ok_frame:
  assumes "status_ok g t"
  shows "status_ok (frame_buttons orc now g fid b inputText) (t \<or> frame_ends orc g b inputText)"
proof (cases "status g")
  case Waiting
  with assms have nt: "\<not> t" by (simp add: status_ok_def)
  have ne: "\<not> frame_ends orc g b inputText" using Waiting by (simp add: frame_ends_def)
  let ?pl = "createPlayer fid (''FID '' @ fid) None FRAME now"
  have w: "status_ok (assignPlayer g ''white'' ?pl now) t"
    and bl: "status_ok (assignPlayer g ''black'' ?pl now) t"
    and wb: "status_ok (assignPlayer (assignPlayer g ''white'' ?pl now) ''black'' ?pl now) t"
    using assms by (simp_all add: status_ok_assignPlayer)
  have ww: "whitePlayer (assignPlayer g ''white'' ?pl now) \<noteq> None"
    and bb: "blackPlayer (assignPlayer g ''black'' ?pl now) \<noteq> None"
    and wbw: "whitePlayer (assignPlayer (assignPlayer g ''white'' ?pl now) ''black'' ?pl now) \<noteq> None"
    and wbb: "blackPlayer (assignPlayer (assignPlayer g ''white'' ?pl now) ''black'' ?pl now) \<noteq> None"
    by (simp_all add: assignPlayer_def Let_def)
  show ?thesis
    using Waiting nt ne w bl wb ww bb wbw wbb assms
    by (auto simp: frame_buttons_def Let_def status_ok_def)
next
  case Active
  show ?thesis
  proof (cases "b = 1 \<and> truthy inputText")
    case True
    show ?thesis
    proof (cases "frame_move orc g (case inputText of None \<Rightarrow> [] | Some t \<Rightarrow> t)")
      case None
      with True Active assms show ?thesis
        by (simp add: frame_buttons_def frame_ends_def)
    next
      case (Some g')
      from frame_move_Some [OF Some] True Active assms Some show ?thesis
        by (auto simp: frame_buttons_def frame_ends_def status_ok_def)
    qed
  next
    case False
    with Active assms show ?thesis
      by (auto simp: frame_buttons_def frame_ends_def status_ok_def)
  qed
next
  case Finished
  with assms show ?thesis
    by (simp add: frame_buttons_def frame_ends_def)
qed

lemma status_ok_render:
  assumes "status_ok g t"
  shows "status_ok (render_status orc g)
           (t \<or> (status g = Active \<and> (isCheckmate orc (chess g) \<or> isDraw orc (chess g))))"
  using assms by (auto simp: render_status_def status_ok_def)

lemma status_ok_restore:
  assumes "status_ok g t"
  shows "status_ok (loadGame orc now ((serializeGame orc g)\<lparr>sv_fen := f\<rparr>)) t"
  using assms by (simp add: status_ok_def loadGame_def serializeGame_def)

lemma reachable_status_ok: "reachable orc g t \<Longrightarrow> status_ok g t"
proof (induction rule: reachable.induct)
  case (r_new now)
  show ?case by (rule status_ok_new)
next
  case (r_join g t col nm tok r now c g')
  from join_game_Inr [OF r_join.hyps(2)] obtain pl where "g' = assignPlayer g c pl now" ..
  with r_join.IH show ?case by (simp add: status_ok_assignPlayer)
next
  case (r_solo g t nm tok now)
  show ?case by (rule status_ok_solo)
next
  case (r_move g t from_sq to_sq promotion playerToken san g')
  then show ?case by (blast intro: status_ok_move)
next
  case (r_frame g t now fid b inputText)
  then show ?case by (blast intro: status_ok_frame)
next
  case (r_render g t)
  then show ?case by (blast intro: status_ok_render)
next
  case (r_restore g t now f)
  then show ?case by (blast intro: status_ok_restore)
qed


lemma tokens_ok_status [simp]: "tokens_ok (g\<lparr>status := s\<rparr>) = tokens_ok g"
  by (simp add: tokens_ok_def)





text \<open>
  The handlers keep \<open>sessions_ok\<close>: what they store is produced by the rules of
  \<open>reachable\<close>. A restart reads the snapshot the server wrote.
\<close>

lemma sessions_ok_lookup:
  "sessions_ok orc srv \<Longrightarrow> games srv gameId = Some g \<Longrightarrow> \<exists>t. reachable orc g t"
  by (simp add: sessions_ok_def)

lemma sessions_ok_persist:
  assumes "\<forall>gameId g. games srv gameId = Some g \<longrightarrow> (\<exists>t. reachable orc g t)"
  shows "sessions_ok orc (persist orc srv)"
  unfolding sessions_ok_def
proof (intro conjI allI impI)
  fix gameId g assume "games (persist orc srv) gameId = Some g"
  with assms show "\<exists>t. reachable orc g t" by (simp add: persist_def)
next
  fix fl gameId d
  assume "disk (persist orc srv) = Some fl" and "fl gameId = Some d"
  then obtain g where "games srv gameId = Some g" and d: "d = serializeGame orc g"
    by (auto simp: persist_def persistGamesToDisk_def split: if_splits)
  with assms obtain t where "reachable orc g t" by blast
  with d serializeGame_fen [of orc g]
  show "\<exists>g t f. reachable orc g t \<and> d = (serializeGame orc g)\<lparr>sv_fen := f\<rparr>" by metis
qed

lemma sessions_ok_update:
  assumes "sessions_ok orc srv" and "reachable orc g t"
  shows "sessions_ok orc (srv\<lparr>games := (games srv)(gameId \<mapsto> g)\<rparr>)"
    and "sessions_ok orc (persist orc (srv\<lparr>games := (games srv)(gameId \<mapsto> g)\<rparr>))"
proof -
  have g: "\<forall>k g'. games (srv\<lparr>games := (games srv)(gameId \<mapsto> g)\<rparr>) k = Some g' \<longrightarrow> (\<exists>t. reachable orc g' t)"
    using assms by (auto simp: sessions_ok_def)
  then show "sessions_ok orc (persist orc (srv\<lparr>games := (games srv)(gameId \<mapsto> g)\<rparr>))"
    by (rule sessions_ok_persist)
  from g assms(1) show "sessions_ok orc (srv\<lparr>games := (games srv)(gameId \<mapsto> g)\<rparr>)"
    by (simp add: sessions_ok_def)
qed

lemma sessions_ok_start: "sessions_ok orc (start_server orc now None)"
  by (simp add: sessions_ok_def start_server_def loadGamesFromDisk_def)

lemma sessions_ok_restart:
  assumes "sessions_ok orc srv"
  shows "sessions_ok orc (start_server orc now (disk srv))"
proof (cases "disk srv")
  case None
  then show ?thesis by (simp add: sessions_ok_start)
next
  case (Some fl)
  have ent: "\<And>gameId d. fl gameId = Some d \<Longrightarrow>
      \<exists>g t f. reachable orc g t \<and> d = (serializeGame orc g)\<lparr>sv_fen := f\<rparr>"
    using assms Some by (simp add: sessions_ok_def)
  show ?thesis
    unfolding sessions_ok_def
  proof (intro conjI allI impI)
    fix gameId g assume "games (start_server orc now (disk srv)) gameId = Some g"
    then obtain d where d: "fl gameId = Some d" and g: "g = loadGame orc now d"
      by (auto simp: Some start_server_def loadGamesFromDisk_def split: option.splits)
    from ent [OF d] obtain g0 t f where "reachable orc g0 t" "d = (serializeGame orc g0)\<lparr>sv_fen := f\<rparr>"
      by blast
    then show "\<exists>t. reachable orc g t" unfolding g by (blast intro: r_restore)
  next
    fix fl' gameId d
    assume "disk (start_server orc now (disk srv)) = Some fl'" and "fl' gameId = Some d"
    then have "fl gameId = Some d" by (simp add: start_server_def Some)
    from ent [OF this]
    show "\<exists>g t f. reachable orc g t \<and> d = (serializeGame orc g)\<lparr>sv_fen := f\<rparr>" .
  qed
qed

lemma sessions_ok_post_api_games:
  "sessions_ok orc srv \<Longrightarrow> sessions_ok orc (snd (post_api_games orc now srv gameId))"
  by (simp add: post_api_games_def sessions_ok_update(2) [OF _ r_new])

lemma sessions_ok_post_join:
  assumes "sessions_ok orc srv" and "tok \<noteq> []"
  shows "sessions_ok orc (snd (post_join orc now srv gameId col nm tok r))"
proof (cases "games srv gameId")
  case None
  with assms show ?thesis by (simp add: post_join_def)
next
  case (Some g)
  from sessions_ok_lookup [OF assms(1) Some] obtain t where r: "reachable orc g t" ..
  show ?thesis
  proof (cases "join_game g col nm tok r now")
    case (Inl e)
    with Some assms show ?thesis by (simp add: post_join_def)
  next
    case (Inr cg)
    obtain c g' where cg: "cg = (c, g')" by (cases cg)
    from r_join [OF r Inr [unfolded cg] assms(2)] have "reachable orc g' t" .
    from sessions_ok_update(2) [OF assms(1) this] Some Inr cg show ?thesis
      by (simp add: post_join_def)
  qed
qed

lemma sessions_ok_post_solo:
  assumes "sessions_ok orc srv" and "tok \<noteq> []"
  shows "sessions_ok orc (snd (post_solo orc now srv gameId nm tok))"
proof -
  have "\<exists>t. reachable orc (case games srv gameId of None \<Rightarrow> createNewGame orc now | Some g0 \<Rightarrow> g0) t"
    using assms(1) by (auto simp: sessions_ok_def intro: r_new split: option.splits)
  then obtain t where "reachable orc (case games srv gameId of None \<Rightarrow> createNewGame orc now | Some g0 \<Rightarrow> g0) t" ..
  from r_solo [OF this assms(2)]
  have "reachable orc (solo_game orc (case games srv gameId of None \<Rightarrow> createNewGame orc now | Some g0 \<Rightarrow> g0) nm tok now) False" .
  from sessions_ok_update(2) [OF assms(1) this]
  show ?thesis by (simp add: post_solo_def Let_def)
qed

lemma sessions_ok_post_move:
  assumes "sessions_ok orc srv"
  shows "sessions_ok orc (snd (post_move orc srv rq))"
  using post_move_cases [of orc srv rq]
proof (elim disjE exE conjE)
  fix e assume "post_move orc srv rq = (Inl e, srv)"
  with assms show ?thesis by simp
next
  fix resp gid from_sq to_sq g g'
  assume g: "games srv gid = Some g"
    and mv: "move_on_game orc g from_sq to_sq (rq_promotion rq) (rq_playerToken rq) = Inr (mr_san resp, g')"
    and pm: "post_move orc srv rq = (Inr resp, persist orc (srv\<lparr>games := (games srv)(gid \<mapsto> g')\<rparr>))"
  from sessions_ok_lookup [OF assms g] obtain t where "reachable orc g t" ..
  from r_move [OF this mv] sessions_ok_update(2) [OF assms] pm show ?thesis by simp
qed

lemma getOrCreateGame_reachable:
  assumes "sessions_ok orc srv" and "getOrCreateGame orc now (games srv) gameId = (games1, g)"
  shows "sessions_ok orc (srv\<lparr>games := games1\<rparr>) \<and> (\<exists>t. reachable orc g t)"
proof (cases "games srv gameId")
  case None
  with assms(2) have "games1 = (games srv)(gameId \<mapsto> createNewGame orc now)" "g = createNewGame orc now"
    by (auto simp: getOrCreateGame_def)
  with sessions_ok_update(1) [OF assms(1) r_new] show ?thesis by (auto intro: r_new)
next
  case (Some g0)
  with assms(2) have "games1 = games srv" "g = g0" by (auto simp: getOrCreateGame_def)
  with assms(1) Some show ?thesis by (simp add: sessions_ok_def)
qed

lemma sessions_ok_get_root:
  assumes "sessions_ok orc srv"
  shows "sessions_ok orc (get_root orc now srv gameId)"
proof (cases "getOrCreateGame orc now (games srv) gameId")
  case (Pair games1 g)
  from getOrCreateGame_reachable [OF assms Pair] obtain t where
    ok: "sessions_ok orc (srv\<lparr>games := games1\<rparr>)" and "reachable orc g t" by blast
  from sessions_ok_update(1) [OF ok r_render [OF this(2)]] Pair show ?thesis
    by (simp add: get_root_def)
qed

lemma sessions_ok_post_frame:
  assumes "sessions_ok orc srv"
  shows "sessions_ok orc (post_frame orc now srv gameId fid b inputText)"
proof (cases "getOrCreateGame orc now (games srv) gameId")
  case (Pair games1 g)
  from getOrCreateGame_reachable [OF assms Pair] obtain t where
    ok: "sessions_ok orc (srv\<lparr>games := games1\<rparr>)" and r: "reachable orc g t" by blast
  show ?thesis
  proof (cases "frame_replaces g b inputText")
    case True
    with sessions_ok_update(2) [OF ok r_new] Pair show ?thesis by (simp add: post_frame_def)
  next
    case False
    from sessions_ok_update(1) [OF ok r_render [OF r_frame [OF r]]] Pair False show ?thesis
      by (simp add: post_frame_def)
  qed
qed

lemma sessions_ok_get_game:
  "sessions_ok orc srv \<Longrightarrow> sessions_ok orc (snd (get_game orc srv protocol host gameId))"
  by (simp add: get_game_def split: option.splits)

text \<open>
  So, in a server state the handlers have produced, an active session has both seats
  taken, and a session with both seats taken is active or finished.
\<close>

lemma stored_session_status:
  assumes "sessions_ok orc srv" and "games srv gameId = Some g"
  shows "(status g = Active \<longrightarrow> whitePlayer g \<noteq> None \<and> blackPlayer g \<noteq> None)
       \<and> (whitePlayer g \<noteq> None \<and> blackPlayer g \<noteq> None \<longrightarrow> status g \<noteq> Waiting)"
proof -
  from sessions_ok_lookup [OF assms] obtain t where "reachable orc g t" ..
  from reachable_status_ok [OF this] show ?thesis
    by (cases "status g") (auto simp: status_ok_def)
qed

text \<open>
  The operations that write the position also write the turn from it; the new session
  and the reset rely on the initial position having white to move.
\<close>

lemma turn_mirrors_new:
  "turn orc (Chess_new orc) = W \<Longrightarrow>
     currentPlayer (createNewGame orc now) = position_turn orc (createNewGame orc now)
     \<and> currentPlayer (solo_game orc g nm tok now) = position_turn orc (solo_game orc g nm tok now)"
  by (simp add: position_turn_def createNewGame_def solo_game_fields)

lemma turn_mirrors_move:
  "move_on_game orc g from_sq to_sq promotion playerToken = Inr (san, g')
     \<Longrightarrow> currentPlayer g' = position_turn orc g'"
  using move_on_game_Inr try_move_Inr unfolding position_turn_def by blast

lemma turn_mirrors_frame_move:
  "frame_move orc g txt = Some g' \<Longrightarrow> currentPlayer g' = position_turn orc g'"
  using frame_move_Some unfolding position_turn_def by blast

lemma turn_mirrors_restore:
  assumes "currentPlayer g = position_turn orc g"
    and "fen orc (chess g) \<noteq> []" and "load orc (fen orc (chess g)) = Some p"
    and "turn orc p = turn orc (chess g)"
  shows "currentPlayer (loadGame orc now (serializeGame orc g))
           = position_turn orc (loadGame orc now (serializeGame orc g))"
  using assms by (simp add: position_turn_def loadGame_def serializeGame_def)

text \<open>
  Writing the snapshot and starting again from it gives back every session whose id is
  not \<^verbatim>\<open>__proto__\<close>, with the position the oracle loads from the stored text and all
  other fields as they were.
\<close>

lemma snapshot_restore_roundtrip:
  assumes "games srv gid = Some g" and "gid \<noteq> ''__proto__''"
    and "fen orc (chess g) \<noteq> []" and "load orc (fen orc (chess g)) = Some p"
  shows "\<exists>g'. games (start_server orc now (disk (persist orc srv))) gid = Some g'
     \<and> chess g' = p \<and> status g' = status g \<and> currentPlayer g' = currentPlayer g
     \<and> moveHistory g' = moveHistory g \<and> lastMove g' = lastMove g
     \<and> whitePlayer g' = whitePlayer g \<and> blackPlayer g' = blackPlayer g"
  using assms
  by (simp add: start_server_def persist_def loadGamesFromDisk_def persistGamesToDisk_def
      loadGame_def serializeGame_def)

subsection \<open>Facts about the example requests\<close>

lemma demo_created_g1: "games demo_created ''g1'' = Some (createNewGame book 0)"
  by (simp add: demo_created_def post_api_games_def persist_def)



lemma demo_solo_g1:
  "games demo_solo ''g1'' = Some (solo_game book (createNewGame book 0) (Some ''Solo'') ''tok-s'' 2)"
  by (simp add: demo_solo_def post_solo_game demo_created_g1)

lemma demo_first_move:
  "post_move book demo_created (mk_request ''g1'' ''e2'' ''e4'' None None)
     = (Inr demo_e4_response, demo_after_e4)"
  by (simp add: demo_created_g1 post_move_def mk_request_def move_on_game_def check_token_def
      hasWebPlayers_def has_token_def try_move_def createNewGame_def
      demo_e4_response_def demo_after_e4_def demo_e4_game_def
      book_simps book_move_e4 book_turns book_not_mate book_fen_e4)

lemma demo_after_e4_g1: "games demo_after_e4 ''g1'' = Some demo_e4_game"
  by (simp add: demo_after_e4_def persist_def)

lemma demo_proto_game:
  "games demo_proto ''__proto__''
     = Some (solo_game book (createNewGame book 2) (Some ''Solo'') ''tok-s'' 2)"
  by (simp add: demo_proto_def post_solo_game start_server_def loadGamesFromDisk_def)

lemma demo_proto_disk: "disk demo_proto = Some (persistGamesToDisk book (games demo_proto))"
  unfolding demo_proto_def by (rule post_solo_disk)





subsection \<open>POST /move and the status of the session\<close>

text \<open>
  C1 (as stated). The claim says that a move on a session that is not active fails and
  changes nothing. On the session \<^verbatim>\<open>g1\<close>, just created, with status \<^verbatim>\<open>waiting\<close> and no
  players, the move from \<^verbatim>\<open>e2\<close> to \<^verbatim>\<open>e4\<close> without a token succeeds: the response
  carries the move, and the stored session has the new position and the move in its
  history, still with status \<^verbatim>\<open>waiting\<close>.
\<close>

theorem move_on_waiting_counterexample:
  "games demo_created ''g1'' = Some (createNewGame book 0)
   \<and> status (createNewGame book 0) = Waiting
   \<and> fst (post_move book demo_created (mk_request ''g1'' ''e2'' ''e4'' None None))
       = Inr \<lparr> mr_san = ''e4'',
               mr_fen = ''rnbqkbnr/pppppppp/8/8/4P3/8/PPPP1PPP/RNBQKBNR b KQkq - 0 1'',
               mr_status = Waiting,
               mr_moveHistory = [''e4''] \<rparr>
   \<and> games (snd (post_move book demo_created (mk_request ''g1'' ''e2'' ''e4'' None None))) ''g1''
       = Some ((createNewGame book 0)
                 \<lparr> chess := [(''e2'', ''e4'', ''e4'')], currentPlayer := B,
                   lastMove := Some (''e2'', ''e4''), moveHistory := [''e4''] \<rparr>)"
  by (simp add: demo_created_g1 post_move_def mk_request_def move_on_game_def check_token_def
      hasWebPlayers_def has_token_def try_move_def createNewGame_def persist_def
      book_simps book_move_e4 book_turns book_not_mate book_fen_e4)

text \<open>
  C1 (amended). For a session whose status is \<^verbatim>\<open>waiting\<close> or \<^verbatim>\<open>active\<close>, stored under
  the id of the request, and a request that gives both squares, \<^verbatim>\<open>POST /move\<close> is
  decided by the token check and the oracle alone; no error stands for a session that is
  waiting. A request the token check refuses is answered with that error, and one whose
  move the oracle refuses with \<^verbatim>\<open>Invalid move\<close> or the message of the exception, the
  server state staying as it was. A move the oracle accepts is applied: the response
  carries its notation, and the stored session has the returned position, the turn of
  that position, the two squares as last move, the notation appended to the history, and
  the status \<^verbatim>\<open>finished\<close> when the oracle reports checkmate or a draw and its status of
  before otherwise.
\<close>

theorem move_decided_by_token_and_oracle:
  assumes "games srv gid = Some g" and "gid \<noteq> []" and "from_sq \<noteq> []" and "to_sq \<noteq> []"
    and "status g = Waiting \<or> status g = Active"
  shows "post_move orc srv (mk_request gid from_sq to_sq promotion playerToken) =
     (case check_token g playerToken of
        Some e \<Rightarrow> (Inl e, srv)
      | None \<Rightarrow>
          (case move orc (chess g) from_sq to_sq (promotion_or_q promotion) of
             Threw msg \<Rightarrow> (Inl (MoveError msg), srv)
           | NoMove \<Rightarrow> (Inl InvalidMove, srv)
           | Moved san p \<Rightarrow>
               (Inr \<lparr> mr_san = san,
                      mr_fen = fen orc p,
                      mr_status = (if isCheckmate orc p \<or> isDraw orc p then Finished else status g),
                      mr_moveHistory = moveHistory g @ [san] \<rparr>,
                persist orc (srv\<lparr>games := (games srv)(gid \<mapsto>
                  g\<lparr> chess := p,
                     currentPlayer := turn orc p,
                     selectedSquare := None,
                     validMoves := [],
                     lastMove := Some (from_sq, to_sq),
                     moveHistory := moveHistory g @ [san],
                     status := (if isCheckmate orc p \<or> isDraw orc p then Finished else status g)
                   \<rparr>)\<rparr>))))"
  by (simp add: post_move_found [OF assms(1-4)] move_on_game_def try_move_def Let_def
      split: option.splits move_outcome.splits)

theorem move_decided_by_token_and_oracle_witness:
  "games demo_created ''g1'' = Some (createNewGame book 0)
   \<and> status (createNewGame book 0) = Waiting
   \<and> check_token (createNewGame book 0) None = None
   \<and> move book (chess (createNewGame book 0)) ''e2'' ''e4'' (promotion_or_q None)
        = Moved ''e4'' [(''e2'', ''e4'', ''e4'')]
   \<and> post_move book demo_created (mk_request ''g1'' ''e2'' ''e4'' None None)
        = (Inr demo_e4_response, demo_after_e4)
   \<and> games demo_after_e4 ''g1'' = Some demo_e4_game
   \<and> moveHistory demo_e4_game = [''e4''] \<and> status demo_e4_game = Waiting"
  using move_decided_by_token_and_oracle [where orc = book and srv = demo_created
      and gid = "''g1''" and g = "createNewGame book 0" and from_sq = "''e2''"
      and to_sq = "''e4''" and promotion = None and playerToken = None, OF demo_created_g1]
  by (simp add: demo_created_g1 demo_first_move demo_after_e4_g1 demo_e4_game_def
      createNewGame_def check_token_def hasWebPlayers_def has_token_def
      book_simps book_move_e4)

subsection \<open>POST /move: the token check\<close>




subsection \<open>POST /move: an accepted move\<close>

text \<open>
  C3. When \<^verbatim>\<open>POST /move\<close> succeeds, the request names a stored session and two squares,
  and the session stored afterwards has: the position the oracle returned for the move,
  \<^verbatim>\<open>currentPlayer\<close> equal to the side to move of that position, the history of before
  with the notation of the move at its end (one entry longer), \<^verbatim>\<open>lastMove\<close> equal to
  the two squares of the request, and the status \<^verbatim>\<open>finished\<close> when the oracle reports
  checkmate or a draw at the new position and the status of before otherwise; so a
  session that was not finished is finished afterwards exactly when the oracle reports
  checkmate or a draw.
\<close>

theorem move_success_effects:
  assumes "post_move orc srv rq = (Inr resp, srv')"
  shows "\<exists>gid from_sq to_sq g g'.
      rq_gameId rq = Some gid \<and> rq_from rq = Some from_sq \<and> rq_to rq = Some to_sq
      \<and> games srv gid = Some g \<and> games srv' gid = Some g'
      \<and> move orc (chess g) from_sq to_sq (promotion_or_q (rq_promotion rq))
            = Moved (mr_san resp) (chess g')
      \<and> currentPlayer g' = turn orc (chess g')
      \<and> moveHistory g' = moveHistory g @ [mr_san resp]
      \<and> length (moveHistory g') = length (moveHistory g) + 1
      \<and> lastMove g' = Some (from_sq, to_sq)
      \<and> status g' = (if isCheckmate orc (chess g') \<or> isDraw orc (chess g')
                      then Finished else status g)
      \<and> (status g \<noteq> Finished \<longrightarrow>
            (status g' = Finished \<longleftrightarrow> isCheckmate orc (chess g') \<or> isDraw orc (chess g')))
      \<and> mr_status resp = status g' \<and> mr_moveHistory resp = moveHistory g'
      \<and> mr_fen resp = fen orc (chess g')"
proof -
  from post_move_Inr [OF assms] obtain gid from_sq to_sq g g' where
    rq: "rq_gameId rq = Some gid" "rq_from rq = Some from_sq" "rq_to rq = Some to_sq"
    and g: "games srv gid = Some g"
    and mv: "move_on_game orc g from_sq to_sq (rq_promotion rq) (rq_playerToken rq) = Inr (mr_san resp, g')"
    and resp: "resp = \<lparr> mr_san = mr_san resp, mr_fen = fen orc (chess g'), mr_status = status g',
                  mr_moveHistory = moveHistory g' \<rparr>"
    and srv': "srv' = persist orc (srv\<lparr>games := (games srv)(gid \<mapsto> g')\<rparr>)"
    by blast
  from move_on_game_Inr [OF mv] have tm: "try_move orc g from_sq to_sq (rq_promotion rq) = Inr (mr_san resp, g')"
    by simp
  note eff = try_move_Inr [OF tm]
  have g': "games srv' gid = Some g'" by (simp add: srv' persist_def)
  have r1: "mr_status resp = status g'" "mr_moveHistory resp = moveHistory g'" "mr_fen resp = fen orc (chess g')"
    by (subst resp, simp)+
  show ?thesis
    using rq g g' eff r1 by (intro exI [of _ gid] exI [of _ from_sq] exI [of _ to_sq] exI [of _ g] exI [of _ g']) simp
qed

theorem move_success_effects_witness:
  "post_move book demo_created (mk_request ''g1'' ''e2'' ''e4'' None None)
     = (Inr demo_e4_response, demo_after_e4)
   \<and> games demo_after_e4 ''g1'' = Some demo_e4_game
   \<and> moveHistory demo_e4_game = [''e4'']
   \<and> (\<exists>gid from_sq to_sq g g'.
      rq_gameId (mk_request ''g1'' ''e2'' ''e4'' None None) = Some gid
      \<and> rq_from (mk_request ''g1'' ''e2'' ''e4'' None None) = Some from_sq
      \<and> rq_to (mk_request ''g1'' ''e2'' ''e4'' None None) = Some to_sq
      \<and> games demo_created gid = Some g \<and> games demo_after_e4 gid = Some g'
      \<and> move book (chess g) from_sq to_sq
            (promotion_or_q (rq_promotion (mk_request ''g1'' ''e2'' ''e4'' None None)))
            = Moved (mr_san demo_e4_response) (chess g')
      \<and> currentPlayer g' = turn book (chess g')
      \<and> moveHistory g' = moveHistory g @ [mr_san demo_e4_response]
      \<and> length (moveHistory g') = length (moveHistory g) + 1
      \<and> lastMove g' = Some (from_sq, to_sq)
      \<and> status g' = (if isCheckmate book (chess g') \<or> isDraw book (chess g')
                      then Finished else status g)
      \<and> (status g \<noteq> Finished \<longrightarrow>
            (status g' = Finished \<longleftrightarrow> isCheckmate book (chess g') \<or> isDraw book (chess g')))
      \<and> mr_status demo_e4_response = status g'
      \<and> mr_moveHistory demo_e4_response = moveHistory g'
      \<and> mr_fen demo_e4_response = fen book (chess g'))"
proof (intro conjI)
  show "post_move book demo_created (mk_request ''g1'' ''e2'' ''e4'' None None)
     = (Inr demo_e4_response, demo_after_e4)"
    by (rule demo_first_move)
  show "games demo_after_e4 ''g1'' = Some demo_e4_game"
    by (simp add: demo_after_e4_def persist_def)
  show "moveHistory demo_e4_game = [''e4'']"
    by (simp add: demo_e4_game_def)
  show "\<exists>gid from_sq to_sq g g'.
      rq_gameId (mk_request ''g1'' ''e2'' ''e4'' None None) = Some gid
      \<and> rq_from (mk_request ''g1'' ''e2'' ''e4'' None None) = Some from_sq
      \<and> rq_to (mk_request ''g1'' ''e2'' ''e4'' None None) = Some to_sq
      \<and> games demo_created gid = Some g \<and> games demo_after_e4 gid = Some g'
      \<and> move book (chess g) from_sq to_sq
            (promotion_or_q (rq_promotion (mk_request ''g1'' ''e2'' ''e4'' None None)))
            = Moved (mr_san demo_e4_response) (chess g')
      \<and> currentPlayer g' = turn book (chess g')
      \<and> moveHistory g' = moveHistory g @ [mr_san demo_e4_response]
      \<and> length (moveHistory g') = length (moveHistory g) + 1
      \<and> lastMove g' = Some (from_sq, to_sq)
      \<and> status g' = (if isCheckmate book (chess g') \<or> isDraw book (chess g')
                      then Finished else status g)
      \<and> (status g \<noteq> Finished \<longrightarrow>
            (status g' = Finished \<longleftrightarrow> isCheckmate book (chess g') \<or> isDraw book (chess g')))
      \<and> mr_status demo_e4_response = status g'
      \<and> mr_moveHistory demo_e4_response = moveHistory g'
      \<and> mr_fen demo_e4_response = fen book (chess g')"
    by (rule move_success_effects [OF demo_first_move])
qed

subsection \<open>POST /move: a refused move\<close>

text \<open>
  C4. When the request passes the token check and the oracle refuses the move (it
  returns no move, or throws), \<^verbatim>\<open>POST /move\<close> answers with status 400, with
  \<^verbatim>\<open>Invalid move\<close> or the message of the exception, and the server state is the state
  before the call: the session is stored unchanged, and \<^verbatim>\<open>GET /game/:gameId\<close> afterwards
  answers as it would have before.
\<close>

theorem illegal_move_no_mutation:
  assumes "games srv gid = Some g" and "gid \<noteq> []" and "from_sq \<noteq> []" and "to_sq \<noteq> []"
    and "check_token g playerToken = None"
    and "move orc (chess g) from_sq to_sq (promotion_or_q promotion) = NoMove
         \<or> (\<exists>msg. move orc (chess g) from_sq to_sq (promotion_or_q promotion) = Threw msg)"
  shows "\<exists>e. post_move orc srv (mk_request gid from_sq to_sq promotion playerToken) = (Inl e, srv)
      \<and> (e = InvalidMove \<or> (\<exists>msg. e = MoveError msg)) \<and> http_status e = 400
      \<and> games (snd (post_move orc srv (mk_request gid from_sq to_sq promotion playerToken))) gid = Some g
      \<and> get_game orc (snd (post_move orc srv (mk_request gid from_sq to_sq promotion playerToken)))
            protocol host gid
          = get_game orc srv protocol host gid"
  using assms(5,6)
  by (auto simp: post_move_found [OF assms(1-4)] move_on_game_def try_move_def assms(1))

theorem illegal_move_no_mutation_witness:
  "games demo_solo ''g1'' = Some (solo_game book (createNewGame book 0) (Some ''Solo'') ''tok-s'' 2)
   \<and> check_token (solo_game book (createNewGame book 0) (Some ''Solo'') ''tok-s'' 2) (Some ''tok-s'') = None
   \<and> move book (chess (solo_game book (createNewGame book 0) (Some ''Solo'') ''tok-s'' 2))
        ''e2'' ''e5'' (promotion_or_q None) = Threw ''Invalid move: e2e5''
   \<and> post_move book demo_solo (mk_request ''g1'' ''e2'' ''e5'' None (Some ''tok-s''))
       = (Inl (MoveError ''Invalid move: e2e5''), demo_solo)"
proof -
  let ?g = "solo_game book (createNewGame book 0) (Some ''Solo'') ''tok-s'' 2"
  have tok: "check_token ?g (Some ''tok-s'') = None"
    by (rule check_token_solo) simp_all
  have rej: "move book (chess ?g) ''e2'' ''e5'' (promotion_or_q None) = Threw ''Invalid move: e2e5''"
    by (simp add: solo_game_fields book_simps book_move_e2_e5)
  have rej': "move book (chess ?g) ''e2'' ''e5'' ''q'' = Threw ''Invalid move: e2e5''"
    using rej by simp
  have "\<exists>e. post_move book demo_solo (mk_request ''g1'' ''e2'' ''e5'' None (Some ''tok-s'')) = (Inl e, demo_solo)
      \<and> (e = InvalidMove \<or> (\<exists>msg. e = MoveError msg)) \<and> http_status e = 400
      \<and> games (snd (post_move book demo_solo (mk_request ''g1'' ''e2'' ''e5'' None (Some ''tok-s'')))) ''g1'' = Some ?g
      \<and> get_game book (snd (post_move book demo_solo (mk_request ''g1'' ''e2'' ''e5'' None (Some ''tok-s''))))
            ''http'' ''localhost'' ''g1''
          = get_game book demo_solo ''http'' ''localhost'' ''g1''"
    by (rule illegal_move_no_mutation [OF demo_solo_g1 _ _ _ tok]) (simp_all add: rej')
  moreover have "fst (post_move book demo_solo (mk_request ''g1'' ''e2'' ''e5'' None (Some ''tok-s'')))
      = Inl (MoveError ''Invalid move: e2e5'')"
    by (simp add: post_move_found [OF demo_solo_g1] move_on_game_def tok try_move_def rej')
  ultimately have "post_move book demo_solo (mk_request ''g1'' ''e2'' ''e5'' None (Some ''tok-s''))
       = (Inl (MoveError ''Invalid move: e2e5''), demo_solo)"
    by (metis fst_conv)
  with demo_solo_g1 tok rej show ?thesis by blast
qed

subsection \<open>POST /api/games/:gameId/solo\<close>

text \<open>
  C5. \<^verbatim>\<open>POST /api/games/:gameId/solo\<close> answers with the new token and, whatever was
  stored before, stores a session whose two seats carry that token, at the oracle's
  initial position, with an empty history, no last move, white to move, and status
  \<^verbatim>\<open>active\<close>. Every session with these two seats passes the token check with that
  token, whoever is to move. So, for an oracle that accepts e2 to e4 from the initial
  position with notation \<^verbatim>\<open>e4\<close> and then e7 to e5 with notation \<^verbatim>\<open>e5\<close>, the two moves
  sent with the token both succeed and the history is then \<^verbatim>\<open>["e4", "e5"]\<close>.
\<close>

theorem solo_resets_and_authorizes:
  assumes "gid \<noteq> []"
  shows "fst (post_solo orc now srv gid nm tok) = tok
    \<and> (\<exists>g1 wp bp. games (snd (post_solo orc now srv gid nm tok)) gid = Some g1
         \<and> whitePlayer g1 = Some wp \<and> blackPlayer g1 = Some bp
         \<and> token wp = Some tok \<and> token bp = Some tok
         \<and> chess g1 = Chess_new orc \<and> moveHistory g1 = [] \<and> lastMove g1 = None
         \<and> currentPlayer g1 = W \<and> status g1 = Active
         \<and> (\<forall>g'. whitePlayer g' = whitePlayer g1 \<and> blackPlayer g' = blackPlayer g1
                \<longrightarrow> check_token g' (Some tok) = None))
    \<and> (\<forall>p1 p2. move orc (Chess_new orc) ''e2'' ''e4'' ''q'' = Moved ''e4'' p1
              \<and> move orc p1 ''e7'' ''e5'' ''q'' = Moved ''e5'' p2 \<longrightarrow>
          (\<exists>r1 s1 r2 s2 g2.
              post_move orc (snd (post_solo orc now srv gid nm tok))
                  (mk_request gid ''e2'' ''e4'' None (Some tok)) = (Inr r1, s1)
            \<and> post_move orc s1 (mk_request gid ''e7'' ''e5'' None (Some tok)) = (Inr r2, s2)
            \<and> mr_moveHistory r2 = [''e4'', ''e5'']
            \<and> games s2 gid = Some g2 \<and> moveHistory g2 = [''e4'', ''e5'']))"
proof (intro conjI allI impI)
  let ?g0 = "case games srv gid of None \<Rightarrow> createNewGame orc now | Some g0 \<Rightarrow> g0"
  let ?g1 = "solo_game orc ?g0 nm tok now"
  let ?s0 = "snd (post_solo orc now srv gid nm tok)"
  show "fst (post_solo orc now srv gid nm tok) = tok"
    by (simp add: post_solo_def Let_def)
  have g1: "games ?s0 gid = Some ?g1" by (rule post_solo_game)
  show "\<exists>g1 wp bp. games ?s0 gid = Some g1
         \<and> whitePlayer g1 = Some wp \<and> blackPlayer g1 = Some bp
         \<and> token wp = Some tok \<and> token bp = Some tok
         \<and> chess g1 = Chess_new orc \<and> moveHistory g1 = [] \<and> lastMove g1 = None
         \<and> currentPlayer g1 = W \<and> status g1 = Active
         \<and> (\<forall>g'. whitePlayer g' = whitePlayer g1 \<and> blackPlayer g' = blackPlayer g1
                \<longrightarrow> check_token g' (Some tok) = None)"
    using g1 check_token_solo [where orc = orc and g = ?g0 and nm = nm and tok = tok and now = now]
    by (auto simp: solo_game_fields createPlayer_token)
  fix p1 p2
  assume mv: "move orc (Chess_new orc) ''e2'' ''e4'' ''q'' = Moved ''e4'' p1
              \<and> move orc p1 ''e7'' ''e5'' ''q'' = Moved ''e5'' p2"
  have tok1: "check_token ?g1 (Some tok) = None" by (rule check_token_solo) simp_all
  have mv1: "move orc (chess ?g1) ''e2'' ''e4'' (promotion_or_q None) = Moved ''e4'' p1"
    using mv by (simp add: solo_game_fields)
  from post_move_applied [OF g1 assms _ _ tok1 mv1] obtain r1 s1 g2 where
    r1: "post_move orc ?s0 (mk_request gid ''e2'' ''e4'' None (Some tok)) = (Inr r1, s1)"
    and s1: "games s1 gid = Some g2" and c2: "chess g2 = p1"
    and h2: "moveHistory g2 = moveHistory ?g1 @ [''e4'']"
    and pl: "whitePlayer g2 = whitePlayer ?g1" "blackPlayer g2 = blackPlayer ?g1"
    by auto
  have tok2: "check_token g2 (Some tok) = None" by (rule check_token_solo) (rule pl)+
  have mv2: "move orc (chess g2) ''e7'' ''e5'' (promotion_or_q None) = Moved ''e5'' p2"
    using mv by (simp add: c2)
  from post_move_applied [OF s1 assms _ _ tok2 mv2] obtain r2 s2 g3 where
    r2: "post_move orc s1 (mk_request gid ''e7'' ''e5'' None (Some tok)) = (Inr r2, s2)"
    and s2: "games s2 gid = Some g3" and rh: "mr_moveHistory r2 = moveHistory g3"
    and h3: "moveHistory g3 = moveHistory g2 @ [''e5'']"
    by auto
  have "moveHistory g3 = [''e4'', ''e5'']" by (simp add: h3 h2 solo_game_fields)
  with r1 r2 s2 rh
  show "\<exists>r1 s1 r2 s2 g2.
              post_move orc ?s0 (mk_request gid ''e2'' ''e4'' None (Some tok)) = (Inr r1, s1)
            \<and> post_move orc s1 (mk_request gid ''e7'' ''e5'' None (Some tok)) = (Inr r2, s2)
            \<and> mr_moveHistory r2 = [''e4'', ''e5'']
            \<and> games s2 gid = Some g2 \<and> moveHistory g2 = [''e4'', ''e5'']"
    by auto
qed

theorem solo_resets_and_authorizes_witness:
  "''g1'' \<noteq> []
   \<and> move book (Chess_new book) ''e2'' ''e4'' ''q'' = Moved ''e4'' [(''e2'', ''e4'', ''e4'')]
   \<and> move book [(''e2'', ''e4'', ''e4'')] ''e7'' ''e5'' ''q''
        = Moved ''e5'' [(''e2'', ''e4'', ''e4''), (''e7'', ''e5'', ''e5'')]
   \<and> (\<exists>r1 s1 r2 s2 g2.
          post_move book demo_solo (mk_request ''g1'' ''e2'' ''e4'' None (Some ''tok-s'')) = (Inr r1, s1)
        \<and> post_move book s1 (mk_request ''g1'' ''e7'' ''e5'' None (Some ''tok-s'')) = (Inr r2, s2)
        \<and> mr_moveHistory r2 = [''e4'', ''e5'']
        \<and> games s2 ''g1'' = Some g2 \<and> moveHistory g2 = [''e4'', ''e5''])"
proof -
  have ne: "''g1'' \<noteq> []" by simp
  have m1: "move book (Chess_new book) ''e2'' ''e4'' ''q'' = Moved ''e4'' [(''e2'', ''e4'', ''e4'')]"
    by (simp add: book_simps book_move_e4)
  have m2: "move book [(''e2'', ''e4'', ''e4'')] ''e7'' ''e5'' ''q''
        = Moved ''e5'' [(''e2'', ''e4'', ''e4''), (''e7'', ''e5'', ''e5'')]"
    by (simp add: book_simps book_move_e4_e5)
  note th = solo_resets_and_authorizes [where orc = book and now = 2 and srv = demo_created
      and nm = "Some ''Solo''" and tok = "''tok-s''", OF ne]
  from th have "\<forall>p1 p2. move book (Chess_new book) ''e2'' ''e4'' ''q'' = Moved ''e4'' p1
              \<and> move book p1 ''e7'' ''e5'' ''q'' = Moved ''e5'' p2 \<longrightarrow>
          (\<exists>r1 s1 r2 s2 g2.
              post_move book demo_solo (mk_request ''g1'' ''e2'' ''e4'' None (Some ''tok-s'')) = (Inr r1, s1)
            \<and> post_move book s1 (mk_request ''g1'' ''e7'' ''e5'' None (Some ''tok-s'')) = (Inr r2, s2)
            \<and> mr_moveHistory r2 = [''e4'', ''e5'']
            \<and> games s2 ''g1'' = Some g2 \<and> moveHistory g2 = [''e4'', ''e5''])"
    unfolding demo_solo_def by (elim conjE)
  with m1 m2 have "\<exists>r1 s1 r2 s2 g2.
              post_move book demo_solo (mk_request ''g1'' ''e2'' ''e4'' None (Some ''tok-s'')) = (Inr r1, s1)
            \<and> post_move book s1 (mk_request ''g1'' ''e7'' ''e5'' None (Some ''tok-s'')) = (Inr r2, s2)
            \<and> mr_moveHistory r2 = [''e4'', ''e5'']
            \<and> games s2 ''g1'' = Some g2 \<and> moveHistory g2 = [''e4'', ''e5'']"
    by blast
  with ne m1 m2 show ?thesis by (intro conjI)
qed

subsection \<open>Lazy creation\<close>

text \<open>
  C6. \<^verbatim>\<open>getOrCreateGame\<close> is idempotent: a second call (at any later clock value) returns
  the record the first call returned and leaves the map as the first call left it; on an
  id that is present it returns the stored record and changes nothing; on an absent id it
  stores and returns a session with status \<^verbatim>\<open>waiting\<close>, the oracle's initial position, no
  bindings, no moves, and only that id is added to the map.
\<close>

theorem getOrCreateGame_idempotent:
  "getOrCreateGame orc now' (fst (getOrCreateGame orc now st gid)) gid
     = getOrCreateGame orc now st gid
   \<and> fst (getOrCreateGame orc now st gid) gid = Some (snd (getOrCreateGame orc now st gid))
   \<and> (\<forall>g. st gid = Some g \<longrightarrow> getOrCreateGame orc now st gid = (st, g))
   \<and> (st gid = None \<longrightarrow>
        (let g = snd (getOrCreateGame orc now st gid) in
           status g = Waiting \<and> chess g = Chess_new orc
           \<and> whitePlayer g = None \<and> blackPlayer g = None
           \<and> moveHistory g = [] \<and> lastMove g = None \<and> currentPlayer g = W)
        \<and> (\<forall>k. k \<noteq> gid \<longrightarrow> fst (getOrCreateGame orc now st gid) k = st k))"
  by (auto simp: getOrCreateGame_def createNewGame_def Let_def split: option.splits)

theorem getOrCreateGame_idempotent_witness:
  "(Map.empty :: book_position store) ''g1'' = None
   \<and> getOrCreateGame book 9 (fst (getOrCreateGame book 5 Map.empty ''g1'')) ''g1''
       = getOrCreateGame book 5 Map.empty ''g1''
   \<and> status (snd (getOrCreateGame book 5 Map.empty ''g1'')) = Waiting
   \<and> chess (snd (getOrCreateGame book 5 Map.empty ''g1'')) = Chess_new book
   \<and> fst (getOrCreateGame book 5 Map.empty ''g1'') ''g2'' = None"
  using getOrCreateGame_idempotent [where orc = book and now = 5 and now' = 9
      and st = Map.empty and gid = "''g1''"]
  by (simp add: Let_def)

subsection \<open>Snapshot and restore\<close>

text \<open>
  C7 (the code at a failing input). A server without sessions handles
  \<^verbatim>\<open>POST /api/games/__proto__/solo\<close>: the session \<^verbatim>\<open>__proto__\<close> is stored and the snapshot
  is written. A server started from that snapshot has no session \<^verbatim>\<open>__proto__\<close>: the
  session is lost instead of being restored with its position, status, turn and history.
\<close>

theorem proto_session_not_restored:
  "games demo_proto ''__proto__''
     = Some (solo_game book (createNewGame book 2) (Some ''Solo'') ''tok-s'' 2)
   \<and> disk demo_proto = Some (persistGamesToDisk book (games demo_proto))
   \<and> games (start_server book 9 (disk demo_proto)) ''__proto__'' = None"
  by (simp add: demo_proto_game demo_proto_disk
      start_server_def loadGamesFromDisk_def persistGamesToDisk_def)

subsection \<open>Status and seats\<close>

text \<open>
  C8. For every session the operations can produce (creation, join, solo, move, the frame
  buttons with join, solo, move and resignation, the composition of a page, a new game,
  restore), the status is \<^verbatim>\<open>active\<close> if and only if both seats are taken and no terminal
  condition (checkmate or a draw reported by the oracle, or a resignation) has been
  reached since the session was last reset.
\<close>

theorem status_active_iff:
  assumes "reachable orc g t"
  shows "status g = Active \<longleftrightarrow> whitePlayer g \<noteq> None \<and> blackPlayer g \<noteq> None \<and> \<not> t"
  using reachable_status_ok [OF assms] by (simp add: status_ok_def)

theorem status_active_iff_witness:
  "reachable book (solo_game book (createNewGame book 0) (Some ''Solo'') ''tok-s'' 2) False
   \<and> status (solo_game book (createNewGame book 0) (Some ''Solo'') ''tok-s'' 2) = Active
   \<and> whitePlayer (solo_game book (createNewGame book 0) (Some ''Solo'') ''tok-s'' 2) \<noteq> None
   \<and> blackPlayer (solo_game book (createNewGame book 0) (Some ''Solo'') ''tok-s'' 2) \<noteq> None"
proof -
  have r: "reachable book (solo_game book (createNewGame book 0) (Some ''Solo'') ''tok-s'' 2) False"
    by (rule r_solo [OF r_new]) simp
  from status_active_iff [OF r] r show ?thesis by (simp add: solo_game_fields)
qed

subsection \<open>The turn and the position\<close>

text \<open>
  C9 (the code at a failing input). The session \<^verbatim>\<open>g1\<close> after the move from \<^verbatim>\<open>e2\<close> to
  \<^verbatim>\<open>e4\<close> has black to move, in its turn field and in its position. In the snapshot the
  \<^verbatim>\<open>fen\<close> text of \<^verbatim>\<open>g1\<close> is replaced by a text the oracle rejects. The server started
  from that file holds \<^verbatim>\<open>g1\<close> at the initial position, where white is to move, with the
  turn field still black (and the history still \<^verbatim>\<open>["e4"]\<close>): the turn and the position
  have diverged.
\<close>

theorem damaged_position_turn_diverges:
  "games demo_after_e4 ''g1'' = Some demo_e4_game
   \<and> currentPlayer demo_e4_game = position_turn book demo_e4_game
   \<and> load book ''not a position'' = None
   \<and> map_option currentPlayer (games (start_server book 9 demo_damaged_file) ''g1'') = Some B
   \<and> map_option (position_turn book) (games (start_server book 9 demo_damaged_file) ''g1'') = Some W
   \<and> map_option chess (games (start_server book 9 demo_damaged_file) ''g1'') = Some (Chess_new book)
   \<and> map_option moveHistory (games (start_server book 9 demo_damaged_file) ''g1'') = Some [''e4'']"
  by (simp add: demo_after_e4_g1 demo_e4_game_def demo_damaged_file_def start_server_def
      loadGamesFromDisk_def loadGame_def serializeGame_def createNewGame_def
      position_turn_def book_simps book_turns book_load_damaged)

subsection \<open>GET /game/:gameId\<close>

text \<open>
  C10. \<^verbatim>\<open>GET /game/:gameId\<close> leaves the server state as it is (every field of every
  session, and the snapshot). For a stored session it answers with the public view, in
  which the entries \<^verbatim>\<open>players.white\<close> and \<^verbatim>\<open>players.black\<close> are the sanitized players:
  \<^verbatim>\<open>null\<close>, or an object with the keys \<^verbatim>\<open>id\<close>, \<^verbatim>\<open>name\<close>, \<^verbatim>\<open>source\<close> and \<^verbatim>\<open>joinedAt\<close>;
  neither has a key \<^verbatim>\<open>token\<close>.
\<close>

theorem get_game_pure:
  "snd (get_game orc srv protocol host gid) = srv
   \<and> (games srv gid = None \<longrightarrow> fst (get_game orc srv protocol host gid) = Inl GameNotFound)
   \<and> (\<forall>g. games srv gid = Some g \<longrightarrow>
         fst (get_game orc srv protocol host gid) = Inr (game_view orc g protocol host gid)
         \<and> json_field ''white'' (json_field ''players'' (game_view orc g protocol host gid))
             = sanitizePlayer (whitePlayer g)
         \<and> json_field ''black'' (json_field ''players'' (game_view orc g protocol host gid))
             = sanitizePlayer (blackPlayer g)
         \<and> ''token'' \<notin> set (json_keys (sanitizePlayer (whitePlayer g)))
         \<and> ''token'' \<notin> set (json_keys (sanitizePlayer (blackPlayer g))))"
  by (auto simp: get_game_def game_view_players sanitizePlayer_keys split: option.splits)

theorem get_game_pure_witness:
  "games demo_solo ''g1'' = Some (solo_game book (createNewGame book 0) (Some ''Solo'') ''tok-s'' 2)
   \<and> snd (get_game book demo_solo ''http'' ''localhost:3000'' ''g1'') = demo_solo
   \<and> json_field ''white'' (json_field ''players''
        (game_view book (solo_game book (createNewGame book 0) (Some ''Solo'') ''tok-s'' 2)
           ''http'' ''localhost:3000'' ''g1''))
       = JObj [(''id'', JStr ''tok-s-white''), (''name'', JStr ''Solo (White)''),
               (''source'', JStr ''web''), (''joinedAt'', JNum 2)]"
  using get_game_pure [where orc = book and srv = demo_solo and protocol = "''http''"
      and host = "''localhost:3000''" and gid = "''g1''"] demo_solo_g1
  by (simp add: solo_game_fields sanitizePlayer_def createPlayer_def formatPlayerName_def
      trim_def is_space_def)

end
